theory Spec2Isabelle
  imports Main "HOL-Library.AList" "HOL-Library.Stream"
begin

section \<open>Python values used by the game\<close>

text \<open>
  The exceptions that the modelled part of \<^verbatim>\<open>pymon_game.py\<close> can raise.
  \<^verbatim>\<open>InvalidDirectionException\<close> is the game's own class and carries the direction;
  the others are Python's. \<^verbatim>\<open>SystemExit\<close> is what \<^verbatim>\<open>sys.exit(code)\<close> raises.
\<close>

datatype exn =
    InvalidDirectionException string
  | TypeError
  | AttributeError
  | ValueError
  | IndexError
  | SystemExit int

text \<open>
  \<^verbatim>\<open>str(e)\<close>. For \<^verbatim>\<open>InvalidDirectionException\<close> it is the message built by its
  \<^verbatim>\<open>__init__\<close>; the only \<^verbatim>\<open>TypeError\<close> of the model is the one of subscripting a
  dictionary view. The other messages are never printed by the game.
\<close>

fun exn_str :: "exn \<Rightarrow> string" where
  "exn_str (InvalidDirectionException direction) =
     ''Error: Direction - '' @ direction @ '' does not contain any location''"
| "exn_str TypeError = [CHR 0x27] @ ''dict_values'' @ [CHR 0x27] @ '' object is not subscriptable''"
| "exn_str AttributeError = ''''"
| "exn_str ValueError = ''''"
| "exn_str IndexError = ''''"
| "exn_str (SystemExit code) = ''''"

text \<open>
  \<^verbatim>\<open>random.choice(seq)\<close> is \<^verbatim>\<open>seq[self._randbelow(len(seq))]\<close>, after an
  \<^verbatim>\<open>IndexError\<close> for an empty \<^verbatim>\<open>seq\<close>. A list can be subscripted; the view returned
  by \<^verbatim>\<open>dict.values()\<close> has a length but no \<^verbatim>\<open>__getitem__\<close>, and subscripting it raises
  \<^verbatim>\<open>TypeError\<close>. The number \<open>r\<close> is what the generator delivers; it is reduced to an
  index below the length.
\<close>

datatype 'a pyseq = PyList "'a list" | DictValues "'a list"

fun random_choice :: "nat \<Rightarrow> 'a pyseq \<Rightarrow> exn + 'a" where
  "random_choice r (PyList xs) =
     (if xs = [] then Inl IndexError else Inr (xs ! (r mod length xs)))"
| "random_choice r (DictValues xs) =
     (if xs = [] then Inl IndexError else Inl TypeError)"

text \<open>\<^verbatim>\<open>str(n)\<close> for a Python integer: the decimal digits, with a minus sign.\<close>

definition digit_char :: "nat \<Rightarrow> char" where
  "digit_char d = ''0123456789'' ! d"

function str_nat :: "nat \<Rightarrow> string" where
  "str_nat n = (if n < 10 then [digit_char n] else str_nat (n div 10) @ [digit_char (n mod 10)])"
  by pat_completeness auto
termination
  by (relation "measure (\<lambda>n. n)") auto

definition str_int :: "int \<Rightarrow> string" where
  "str_int i = (if i < 0 then ''-'' @ str_nat (nat (- i)) else str_nat (nat i))"

text \<open>
  \<^verbatim>\<open>str.lower()\<close> on the letters A to Z; every other character of the model's
  byte strings is left as it is.
\<close>

definition lower_char :: "char \<Rightarrow> char" where
  "lower_char c =
     (case map_of (zip ''ABCDEFGHIJKLMNOPQRSTUVWXYZ'' ''abcdefghijklmnopqrstuvwxyz'') c of
        Some c' \<Rightarrow> c' | None \<Rightarrow> c)"

definition lower :: "string \<Rightarrow> string" where
  "lower s = map lower_char s"

section \<open>Data model\<close>

text \<open>
  Objects are referred to by address. A \<^verbatim>\<open>Location\<close> lives in \<open>loc_heap\<close>, a plain
  \<^verbatim>\<open>Creature\<close> in \<open>creature_heap\<close> and a \<^verbatim>\<open>Pymon\<close> (the subclass) in \<open>pymon_heap\<close>;
  a reference to a creature says which of the two it is. Comparing two references is
  Python's \<^verbatim>\<open>is\<close>, which is also what \<^verbatim>\<open>in\<close> and \<^verbatim>\<open>list.remove\<close> use for these
  classes, since none of them defines \<^verbatim>\<open>__eq__\<close>.
\<close>

datatype cref = CreatureRef nat | PymonRef nat

record item =
  item_name :: string
  item_description :: string
  pick_up_items :: bool
  consumable :: bool

text \<open>
  \<^verbatim>\<open>Location.doors\<close> is a dictionary from direction names to a location or
  \<^verbatim>\<open>None\<close>. It is kept as an association list in insertion order: \<open>map_of\<close> reads a
  key, \<open>AList.update\<close> overwrites a key in place or appends a new one at the end, as a
  Python dictionary does.
\<close>

record location =
  name :: string
  description :: string
  doors :: "(string \<times> nat option) list"
  creatures :: "cref list"
  items :: "item list"

record creature =
  nickname :: string
  creature_description :: string
  location :: "nat option"
  adoptable :: bool

record battle =
  timestamp :: nat
  opponent :: string
  wins :: int
  draws :: int
  losses :: int

type_synonym battle_stats = "string \<rightharpoonup> battle list"

record pymon = creature +
  current_location :: "nat option"
  energy :: int
  inventory :: "item list"
  pets :: "nat list"
  track_moves :: int
  immunity :: bool
  battle_stats :: battle_stats

text \<open>
  The state of a session: the three heaps, the next free \<^verbatim>\<open>Pymon\<close> address, and
  \<^verbatim>\<open>Operation.current_pymon\<close>.
\<close>

record state =
  loc_heap :: "nat \<Rightarrow> location"
  creature_heap :: "nat \<Rightarrow> creature"
  pymon_heap :: "nat \<Rightarrow> pymon"
  pymon_alloc :: nat
  current_pymon :: nat

text \<open>
  What a call leaves behind: the exception that escapes it, if any, the state at that
  moment (mutations made before a \<^verbatim>\<open>raise\<close> stay), and the lines it gave to
  \<^verbatim>\<open>print\<close>. The prompts of \<^verbatim>\<open>input\<close> are not recorded.
\<close>

record outcome =
  raised :: "exn option"
  post :: state
  printed :: "string list"

definition upd_loc :: "nat \<Rightarrow> (location \<Rightarrow> location) \<Rightarrow> state \<Rightarrow> state" where
  "upd_loc l f s = s\<lparr>loc_heap := (loc_heap s)(l := f (loc_heap s l))\<rparr>"

definition upd_pymon :: "nat \<Rightarrow> (pymon \<Rightarrow> pymon) \<Rightarrow> state \<Rightarrow> state" where
  "upd_pymon p f s = s\<lparr>pymon_heap := (pymon_heap s)(p := f (pymon_heap s p))\<rparr>"

definition nickname_of :: "state \<Rightarrow> cref \<Rightarrow> string" where
  "nickname_of s c =
     (case c of CreatureRef a \<Rightarrow> nickname (creature_heap s a)
              | PymonRef a \<Rightarrow> nickname (pymon_heap s a))"

definition description_of :: "state \<Rightarrow> cref \<Rightarrow> string" where
  "description_of s c =
     (case c of CreatureRef a \<Rightarrow> creature_description (creature_heap s a)
              | PymonRef a \<Rightarrow> creature_description (pymon_heap s a))"

definition location_of :: "state \<Rightarrow> cref \<Rightarrow> nat option" where
  "location_of s c =
     (case c of CreatureRef a \<Rightarrow> location (creature_heap s a)
              | PymonRef a \<Rightarrow> location (pymon_heap s a))"

definition adoptable_of :: "state \<Rightarrow> cref \<Rightarrow> bool" where
  "adoptable_of s c =
     (case c of CreatureRef a \<Rightarrow> adoptable (creature_heap s a)
              | PymonRef a \<Rightarrow> adoptable (pymon_heap s a))"

section \<open>BattleStats and Location\<close>

text \<open>\<^verbatim>\<open>BattleStats.add_battle\<close>; \<open>now\<close> is the reading of \<^verbatim>\<open>datetime.datetime.now()\<close>.\<close>

definition add_battle ::
  "string \<Rightarrow> string \<Rightarrow> int \<Rightarrow> int \<Rightarrow> int \<Rightarrow> nat \<Rightarrow> battle_stats \<Rightarrow> battle_stats" where
  "add_battle pymon_name opp w d l now battles =
     (let battles1 = (if pymon_name \<notin> dom battles then battles(pymon_name \<mapsto> []) else battles);
          b = \<lparr>timestamp = now, opponent = opp, wins = w, draws = d, losses = l\<rparr>
      in battles1(pymon_name \<mapsto> the (battles1 pymon_name) @ [b]))"

definition add_creature :: "nat \<Rightarrow> cref \<Rightarrow> state \<Rightarrow> state" where
  "add_creature l c s = upd_loc l (\<lambda>L. L\<lparr>creatures := creatures L @ [c]\<rparr>) s"

definition opposite_directions :: "(string \<times> string) list" where
  "opposite_directions =
     [(''west'', ''east''), (''east'', ''west''), (''north'', ''south''), (''south'', ''north'')]"

text \<open>
  \<^verbatim>\<open>Location.connect\<close>. The slot of \<open>self\<close> is written first, for any direction;
  the slot of the other room only when the direction has an opposite. The body has no
  \<^verbatim>\<open>raise\<close>, so the result is a state.
\<close>

definition connect :: "nat \<Rightarrow> string \<Rightarrow> nat \<Rightarrow> state \<Rightarrow> state" where
  "connect self direction another_room s =
     (let s1 = upd_loc self
                 (\<lambda>L. L\<lparr>doors := AList.update direction (Some another_room) (doors L)\<rparr>) s
      in case map_of opposite_directions direction of
           Some opposite \<Rightarrow>
             upd_loc another_room
               (\<lambda>L. L\<lparr>doors := AList.update opposite (Some self) (doors L)\<rparr>) s1
         | None \<Rightarrow> s1)"

section \<open>Pymon: movement\<close>

text \<open>
  \<^verbatim>\<open>Pymon.random_escape\<close>. The argument of \<^verbatim>\<open>random.choice\<close> is the view
  \<^verbatim>\<open>self.current_location.doors.values()\<close>. The statements after the choice are kept
  as the source has them: \<^verbatim>\<open>list.remove\<close> raises \<^verbatim>\<open>ValueError\<close> for an absent
  element, and calling \<^verbatim>\<open>add_creature\<close> on \<^verbatim>\<open>None\<close> raises \<^verbatim>\<open>AttributeError\<close>.
\<close>

definition random_escape :: "nat \<Rightarrow> nat \<Rightarrow> state \<Rightarrow> outcome" where
  "random_escape self r s =
     (case current_location (pymon_heap s self) of
        None \<Rightarrow> \<lparr>raised = Some AttributeError, post = s, printed = []\<rparr>
      | Some cur \<Rightarrow>
          (case random_choice r (DictValues (map snd (doors (loc_heap s cur)))) of
             Inl e \<Rightarrow> \<lparr>raised = Some e, post = s, printed = []\<rparr>
           | Inr random_location \<Rightarrow>
               if PymonRef self \<notin> set (creatures (loc_heap s cur))
               then \<lparr>raised = Some ValueError, post = s, printed = []\<rparr>
               else
                 let s1 = upd_loc cur
                            (\<lambda>L. L\<lparr>creatures := remove1 (PymonRef self) (creatures L)\<rparr>) s
                 in (case random_location of
                       None \<Rightarrow> \<lparr>raised = Some AttributeError, post = s1, printed = []\<rparr>
                     | Some rl \<Rightarrow>
                         let s2 = add_creature rl (PymonRef self) s1;
                             s3 = upd_pymon self (\<lambda>p. p\<lparr>current_location := Some rl\<rparr>) s2
                         in \<lparr>raised = None, post = s3,
                             printed = [nickname (pymon_heap s3 self) @
                               '' has escaped to a random location due to lack of energy.'']\<rparr>)))"

text \<open>
  The \<^verbatim>\<open>except InvalidDirectionException as e: print(f"Error: {e}")\<close> of
  \<^verbatim>\<open>Pymon.move\<close>: the exception is caught and reported, the state is the one at the
  \<^verbatim>\<open>raise\<close>.
\<close>

definition direction_error :: "string \<Rightarrow> state \<Rightarrow> outcome" where
  "direction_error direction s =
     \<lparr>raised = None, post = s,
      printed = [''Error: '' @ exn_str (InvalidDirectionException direction)]\<rparr>"

text \<open>
  \<^verbatim>\<open>Pymon.move\<close>. \<open>r\<close> is the random number that \<^verbatim>\<open>random_escape\<close> would draw.
  An exception of \<^verbatim>\<open>random_escape\<close> is not an \<^verbatim>\<open>InvalidDirectionException\<close> and
  escapes the \<^verbatim>\<open>try\<close>. \<^verbatim>\<open>print("You moved to: ", name)\<close> joins its two arguments
  with a space.
\<close>

definition move :: "nat \<Rightarrow> string \<Rightarrow> nat \<Rightarrow> state \<Rightarrow> outcome" where
  "move self direction r s =
     (if direction \<notin> set [''west'', ''north'', ''east'', ''south'']
      then direction_error direction s
      else
        case current_location (pymon_heap s self) of
          None \<Rightarrow> \<lparr>raised = None, post = s, printed = []\<rparr>
        | Some cur \<Rightarrow>
            (case map_of (doors (loc_heap s cur)) direction of
               Some (Some new_location) \<Rightarrow>
                 let s1 = (if PymonRef self \<in> set (creatures (loc_heap s cur))
                           then upd_loc cur
                                  (\<lambda>L. L\<lparr>creatures := remove1 (PymonRef self) (creatures L)\<rparr>) s
                           else s);
                     s2 = add_creature new_location (PymonRef self) s1;
                     s3 = upd_pymon self (\<lambda>p. p\<lparr>current_location := Some new_location\<rparr>) s2;
                     out1 = [''You moved to:  '' @ name (loc_heap s3 new_location)];
                     s4 = upd_pymon self (\<lambda>p. p\<lparr>track_moves := track_moves p + 1\<rparr>) s3
                 in if track_moves (pymon_heap s4 self) \<ge> 2
                    then
                      let s5 = upd_pymon self (\<lambda>p. p\<lparr>track_moves := 0\<rparr>) s4;
                          s6 = upd_pymon self (\<lambda>p. p\<lparr>energy := energy p - 1\<rparr>) s5;
                          out2 = out1 @ [''Your pymon energy decreased by 1. Current Energy: '' @
                                         str_int (energy (pymon_heap s6 self))]
                      in if energy (pymon_heap s6 self) \<le> 0
                         then (let esc = random_escape self r s6
                               in esc\<lparr>printed := out2 @ printed esc\<rparr>)
                         else \<lparr>raised = None, post = s6, printed = out2\<rparr>
                    else \<lparr>raised = None, post = s4, printed = out1\<rparr>
             | _ \<Rightarrow> direction_error direction s))"

section \<open>Operation: the session's commands\<close>

text \<open>
  \<^verbatim>\<open>Operation.move_pymon\<close>, with the line read by \<^verbatim>\<open>input\<close> as \<open>direction\<close>. Its
  second handler, \<^verbatim>\<open>except Exception\<close>, catches whatever \<^verbatim>\<open>move\<close> lets escape and
  reports it; \<^verbatim>\<open>SystemExit\<close> is not an \<^verbatim>\<open>Exception\<close> and would pass.
\<close>

definition move_pymon :: "string \<Rightarrow> nat \<Rightarrow> state \<Rightarrow> outcome" where
  "move_pymon direction r s =
     (let m = move (current_pymon s) direction r s
      in case raised m of
           None \<Rightarrow> m
         | Some (SystemExit code) \<Rightarrow> m
         | Some (InvalidDirectionException d) \<Rightarrow>
             m\<lparr>raised := None,
               printed := printed m @ [''Error: '' @ exn_str (InvalidDirectionException d)]\<rparr>
         | Some e \<Rightarrow>
             m\<lparr>raised := None,
               printed := printed m @ [''Unexpected error during movement: '' @ exn_str e]\<rparr>)"

section \<open>Pymon: the challenge\<close>

text \<open>
  The \<^verbatim>\<open>while\<close> loop of \<^verbatim>\<open>Pymon.Challenge\<close>. \<open>ins\<close> are the lines the player
  types, one for each \<^verbatim>\<open>input\<close>, and \<open>rs\<close> the numbers drawn for the opponent, one
  for each \<^verbatim>\<open>random.choice\<close>. The loop reads and writes \<^verbatim>\<open>self.energy\<close> and nothing
  else of the heap, so the energy is carried as \<open>en\<close> beside the three counters and
  written back by the caller; \<open>out\<close> collects the printed lines. An invalid line and a
  draw go round again without a counter that bounds them, so the loop is a partial
  function: \<open>None\<close> is a loop that never ends. The first component of the result is an
  exception escaping \<^verbatim>\<open>random.choice\<close>.
\<close>

partial_function (option) challenge_rounds ::
  "string \<Rightarrow> int \<Rightarrow> int \<Rightarrow> int \<Rightarrow> int \<Rightarrow> string stream \<Rightarrow> nat stream \<Rightarrow> string list
     \<Rightarrow> (exn option \<times> int \<times> int \<times> int \<times> int \<times> string list) option" where
  "challenge_rounds nick win loss draw en ins rs out =
     (if win < 2 \<and> loss < 2 \<and> en > 0
      then
        if lower (shd ins) \<notin> set [''rock'', ''paper'', ''scissors'']
        then challenge_rounds nick win loss draw en (stl ins) rs
               (out @ [''Error: Invalid choice. Try again''])
        else
          case random_choice (shd rs) (PyList [''rock'', ''paper'', ''scissors'']) of
            Inl e \<Rightarrow> Some (Some e, win, loss, draw, en, out)
          | Inr opponent_turn \<Rightarrow>
              if lower (shd ins) = opponent_turn
              then challenge_rounds nick win loss (draw + 1) en (stl ins) (stl rs)
                     (out @ [''Opponent chose '' @ opponent_turn @ ''.'',
                             ''Draw, no one wins this encounter''])
              else if (lower (shd ins) = ''rock'' \<and> opponent_turn = ''scissors'') \<or>
                      (lower (shd ins) = ''scissors'' \<and> opponent_turn = ''paper'') \<or>
                      (lower (shd ins) = ''paper'' \<and> opponent_turn = ''rock'')
              then challenge_rounds nick (win + 1) loss draw en (stl ins) (stl rs)
                     (out @ [''Opponent chose '' @ opponent_turn @ ''.'',
                             ''Your Pymon '' @ nick @ '' won this encounter!''])
              else challenge_rounds nick win (loss + 1) draw (en - 1) (stl ins) (stl rs)
                     (out @ [''Opponent chose '' @ opponent_turn @ ''.'',
                             ''Your Pymon '' @ nick @ '' lost this encounter.'',
                             ''Remaining Energy: '' @ str_int (en - 1)])
      else Some (None, win, loss, draw, en, out))"

definition enery_max :: int where
  "enery_max = 3"

text \<open>\<^verbatim>\<open>Pymon.__init__\<close>: the object a call \<^verbatim>\<open>Pymon(name, description, current_location)\<close> builds.\<close>

definition new_pymon :: "string \<Rightarrow> string \<Rightarrow> nat option \<Rightarrow> pymon" where
  "new_pymon nm descr loc =
     \<lparr>nickname = nm, creature_description = descr, location = loc, adoptable = False,
      current_location = loc, energy = 3, inventory = [], pets = [], track_moves = 0,
      immunity = False, battle_stats = Map.empty\<rparr>"

text \<open>
  The part of \<^verbatim>\<open>Pymon.Challenge\<close> after the loop: the battle is recorded, then the
  match is won (\<^verbatim>\<open>win >= 2\<close>) or lost. \<open>cur\<close> is \<^verbatim>\<open>self.current_location\<close>, which
  nothing has assigned since the opponent was looked up there. \<^verbatim>\<open>sys.exit(0)\<close>
  raises \<^verbatim>\<open>SystemExit\<close>.
\<close>

definition resolve_match ::
  "nat \<Rightarrow> cref \<Rightarrow> nat \<Rightarrow> int \<Rightarrow> int \<Rightarrow> int \<Rightarrow> nat \<Rightarrow> string list \<Rightarrow> state \<Rightarrow> outcome" where
  "resolve_match self opp cur win loss draw now out s =
     (let s1 = upd_pymon self
                 (\<lambda>p. p\<lparr>battle_stats :=
                          add_battle (nickname p) (nickname_of s opp) win draw loss now
                            (battle_stats p)\<rparr>) s
      in if win \<ge> 2
         then
           let out1 = out @ [''You won the battle against '' @ nickname_of s1 opp @ ''!''];
               captured_pymon = pymon_alloc s1;
               s2 = s1\<lparr>pymon_heap := (pymon_heap s1)
                          (captured_pymon :=
                             new_pymon (nickname_of s1 opp) (description_of s1 opp)
                               (location_of s1 opp)),
                        pymon_alloc := captured_pymon + 1\<rparr>;
               s3 = upd_pymon captured_pymon (\<lambda>p. p\<lparr>energy := enery_max\<rparr>) s2;
               s4 = upd_pymon self (\<lambda>p. p\<lparr>pets := pets p @ [captured_pymon]\<rparr>) s3
           in if opp \<notin> set (creatures (loc_heap s4 cur))
              then \<lparr>raised = Some ValueError, post = s4, printed = out1\<rparr>
              else \<lparr>raised = None,
                    post = upd_loc cur (\<lambda>L. L\<lparr>creatures := remove1 opp (creatures L)\<rparr>) s4,
                    printed = out1\<rparr>
         else
           let out1 = out @ [''Lost the battle. '' @ nickname (pymon_heap s1 self) @
                             '' ran away into the wild.'']
           in (case pets (pymon_heap s1 self) of
                 [] \<Rightarrow>
                   \<lparr>raised = Some (SystemExit 0), post = s1,
                    printed = out1 @
                      [''You dont have any Pymon left to help you in this game. GAME OVER!'']\<rparr>
               | next_pymon # rest \<Rightarrow>
                   let s2 = upd_pymon self (\<lambda>p. p\<lparr>pets := rest\<rparr>) s1;
                       s3 = upd_pymon next_pymon
                              (\<lambda>p. p\<lparr>inventory := inventory p @ inventory (pymon_heap s2 self)\<rparr>) s2;
                       s4 = upd_pymon self (\<lambda>p. p\<lparr>inventory := []\<rparr>) s3;
                       s5 = upd_pymon self
                              (\<lambda>p. p\<lparr>current_location :=
                                       current_location (pymon_heap s4 next_pymon)\<rparr>) s4
                   in \<lparr>raised = None, post = s5,
                       printed = out1 @ [nickname (pymon_heap s4 next_pymon) @
                                         '' is now your primary Pymon.'']\<rparr>))"

text \<open>
  \<^verbatim>\<open>Pymon.Challenge\<close>. \<open>None\<close> is a match whose loop never ends. Reading
  \<^verbatim>\<open>self.current_location.creatures\<close> of a Pymon that was never spawned raises
  \<^verbatim>\<open>AttributeError\<close>.
\<close>

definition Challenge ::
  "nat \<Rightarrow> string \<Rightarrow> string stream \<Rightarrow> nat stream \<Rightarrow> nat \<Rightarrow> state \<Rightarrow> outcome option" where
  "Challenge self creature_name ins rs now s =
     (case current_location (pymon_heap s self) of
        None \<Rightarrow> Some \<lparr>raised = Some AttributeError, post = s, printed = []\<rparr>
      | Some cur \<Rightarrow>
          (case find (\<lambda>c. nickname_of s c = creature_name) (creatures (loc_heap s cur)) of
             None \<Rightarrow>
               Some \<lparr>raised = None, post = s,
                     printed = [creature_name @ '' is not available here.'']\<rparr>
           | Some opp \<Rightarrow>
               if opp = PymonRef self
               then Some \<lparr>raised = None, post = s,
                          printed = [''You cannot challenge your own Pymon.'']\<rparr>
               else if \<not> adoptable_of s opp
               then
                 (case random_choice (shd rs)
                         (PyList [nickname_of s opp @ '' just ignored you.'',
                                  nickname_of s opp @ '' just laughed at you.'',
                                  nickname_of s opp @ '' ran away.'']) of
                    Inl e \<Rightarrow> Some \<lparr>raised = Some e, post = s, printed = []\<rparr>
                  | Inr line \<Rightarrow> Some \<lparr>raised = None, post = s, printed = [line]\<rparr>)
               else
                 (case challenge_rounds (nickname (pymon_heap s self)) 0 0 0
                         (energy (pymon_heap s self)) ins rs
                         [''You started the challenge with '' @ nickname_of s opp @ ''!''] of
                    None \<Rightarrow> None
                  | Some (exc, win, loss, draw, en, out) \<Rightarrow>
                      let s0 = upd_pymon self (\<lambda>p. p\<lparr>energy := en\<rparr>) s
                      in (case exc of
                            Some e \<Rightarrow> Some \<lparr>raised = Some e, post = s0, printed = out\<rparr>
                          | None \<Rightarrow>
                              Some (resolve_match self opp cur win loss draw now out s0)))))"

text \<open>
  \<^verbatim>\<open>Operation.challenge_creature\<close>: the name is the line read by \<^verbatim>\<open>input\<close>; the
  method does nothing after the call.
\<close>

definition challenge_creature ::
  "string \<Rightarrow> string stream \<Rightarrow> nat stream \<Rightarrow> nat \<Rightarrow> state \<Rightarrow> outcome option" where
  "challenge_creature creature_name ins rs now s =
     Challenge (current_pymon s) creature_name ins rs now s"

section \<open>Operation: switching to a benched Pymon\<close>

text \<open>
  \<^verbatim>\<open>list.pop(i)\<close>: a negative index counts from the end; an index outside the list
  raises \<^verbatim>\<open>IndexError\<close>.
\<close>

definition list_pop :: "int \<Rightarrow> 'a list \<Rightarrow> exn + ('a \<times> 'a list)" where
  "list_pop i xs =
     (let n = int (length xs); j = (if i < 0 then i + n else i)
      in if 0 \<le> j \<and> j < n
         then Inr (xs ! nat j, take (nat j) xs @ drop (Suc (nat j)) xs)
         else Inl IndexError)"

text \<open>
  \<^verbatim>\<open>Operation.select_benched_pymon\<close>. \<open>user\<close> is what \<^verbatim>\<open>int(input(...))\<close> gives:
  the number, or \<open>None\<close> when \<^verbatim>\<open>int\<close> raises \<^verbatim>\<open>ValueError\<close>. Both \<^verbatim>\<open>ValueError\<close>
  and \<^verbatim>\<open>IndexError\<close> are caught and reported by the same line.
\<close>

definition select_benched_pymon :: "int option \<Rightarrow> state \<Rightarrow> outcome" where
  "select_benched_pymon user s =
     (let cp = current_pymon s;
          bench = pets (pymon_heap s cp)
      in if bench = []
         then \<lparr>raised = None, post = s, printed = [''You dont have any other Pymon'']\<rparr>
         else
           let listing = (CHR 0x0A # ''Available Pymons:'') #
                 map (\<lambda>(index, p). str_int (int index) @ '') '' @ nickname (pymon_heap s p) @
                                    '' - '' @ creature_description (pymon_heap s p))
                     (zip [1 ..< Suc (length bench)] bench)
           in (case user of
                 None \<Rightarrow>
                   \<lparr>raised = None, post = s, printed = listing @ [''Error: Invalid selection.'']\<rparr>
               | Some u \<Rightarrow>
                   if u = 0 then \<lparr>raised = None, post = s, printed = listing\<rparr>
                   else
                     (case list_pop (u - 1) bench of
                        Inl e \<Rightarrow>
                          \<lparr>raised = None, post = s,
                           printed = listing @ [''Error: Invalid selection.'']\<rparr>
                      | Inr (selected_pymon, rest) \<Rightarrow>
                          let s1 = upd_pymon cp (\<lambda>p. p\<lparr>pets := rest\<rparr>) s;
                              s2 = upd_pymon cp (\<lambda>p. p\<lparr>pets := pets p @ [cp]\<rparr>) s1;
                              s3 = s2\<lparr>current_pymon := selected_pymon\<rparr>
                          in \<lparr>raised = None, post = s3,
                              printed = listing @
                                [''Your Primary Pymon is now: '' @
                                 nickname (pymon_heap s3 (current_pymon s3))]\<rparr>)))"

section \<open>Sequences of commands\<close>

text \<open>
  A move is successful when \<^verbatim>\<open>Pymon.move\<close> takes the door: the direction is one of
  the four, the Pymon has a location, and the slot of that direction holds a location.
\<close>

definition door_taken :: "nat \<Rightarrow> string \<Rightarrow> state \<Rightarrow> bool" where
  "door_taken self direction s =
     (direction \<in> set [''west'', ''north'', ''east'', ''south''] \<and>
      (case current_location (pymon_heap s self) of
         None \<Rightarrow> False
       | Some cur \<Rightarrow>
           (case map_of (doors (loc_heap s cur)) direction of
              Some (Some new_location) \<Rightarrow> True
            | _ \<Rightarrow> False)))"

text \<open>
  The session after a list of \<^verbatim>\<open>move_pymon\<close> commands, each with the direction typed
  and the number the generator would deliver, and the number of successful moves among
  them.
\<close>

fun moves :: "(string \<times> nat) list \<Rightarrow> state \<Rightarrow> state" where
  "moves [] s = s"
| "moves ((d, r) # ds) s = moves ds (post (move_pymon d r s))"

fun successful_moves :: "(string \<times> nat) list \<Rightarrow> state \<Rightarrow> nat" where
  "successful_moves [] s = 0"
| "successful_moves ((d, r) # ds) s =
     (if door_taken (current_pymon s) d s then 1 else 0) +
     successful_moves ds (post (move_pymon d r s))"

text \<open>
  The two commands of the menu that the energy depends on, each with what it reads
  from the player, the generator and the clock. A command that lets an exception escape
  ends the session (\<^verbatim>\<open>handle_menu\<close> catches nothing); a challenge whose loop never ends
  leaves no state.
\<close>

datatype command =
    MoveCmd string nat
  | ChallengeCmd string "string stream" "nat stream" nat

fun is_challenge :: "command \<Rightarrow> bool" where
  "is_challenge (MoveCmd d r) = False"
| "is_challenge (ChallengeCmd n ins rs now) = True"

fun exec :: "command \<Rightarrow> state \<Rightarrow> outcome option" where
  "exec (MoveCmd d r) s = Some (move_pymon d r s)"
| "exec (ChallengeCmd n ins rs now) s = challenge_creature n ins rs now s"

fun run :: "command list \<Rightarrow> state \<Rightarrow> state option" where
  "run [] s = Some s"
| "run (c # cs) s =
     (case exec c s of
        None \<Rightarrow> None
      | Some out \<Rightarrow>
          (case raised out of
             None \<Rightarrow> run cs (post out)
           | Some e \<Rightarrow> Some (post out)))"

text \<open>
  Among the first \<open>n\<close> lines of the player, the number of decisive rounds: a valid
  choice that differs from the opponent's. The two streams are consumed as the loop
  consumes them: an invalid line uses no random number.
\<close>

fun decisive_rounds :: "nat \<Rightarrow> string stream \<Rightarrow> nat stream \<Rightarrow> nat" where
  "decisive_rounds 0 ins rs = 0"
| "decisive_rounds (Suc n) ins rs =
     (if lower (shd ins) \<notin> set [''rock'', ''paper'', ''scissors'']
      then decisive_rounds n (stl ins) rs
      else if lower (shd ins) = [''rock'', ''paper'', ''scissors''] ! (shd rs mod 3)
      then decisive_rounds n (stl ins) (stl rs)
      else Suc (decisive_rounds n (stl ins) (stl rs)))"

text \<open>
  The match after the player's first \<open>n\<close> lines, by the rules of the loop, with the
  fuel \<open>n\<close> in place of the open-ended \<^verbatim>\<open>while\<close>: the wins, losses, draws and energy
  reached. An invalid line changes nothing, a draw adds a draw, a round won adds a win,
  a round lost adds a loss and takes one unit of energy; once the loop condition is
  false, nothing changes any more.
\<close>

fun tally_after ::
  "nat \<Rightarrow> int \<Rightarrow> int \<Rightarrow> int \<Rightarrow> int \<Rightarrow> string stream \<Rightarrow> nat stream \<Rightarrow> int \<times> int \<times> int \<times> int" where
  "tally_after 0 win loss draw en ins rs = (win, loss, draw, en)"
| "tally_after (Suc n) win loss draw en ins rs =
     (if win < 2 \<and> loss < 2 \<and> en > 0
      then
        if lower (shd ins) \<notin> set [''rock'', ''paper'', ''scissors'']
        then tally_after n win loss draw en (stl ins) rs
        else if lower (shd ins) = [''rock'', ''paper'', ''scissors''] ! (shd rs mod 3)
        then tally_after n win loss (draw + 1) en (stl ins) (stl rs)
        else if (lower (shd ins) = ''rock'' \<and>
                   [''rock'', ''paper'', ''scissors''] ! (shd rs mod 3) = ''scissors'') \<or>
                (lower (shd ins) = ''scissors'' \<and>
                   [''rock'', ''paper'', ''scissors''] ! (shd rs mod 3) = ''paper'') \<or>
                (lower (shd ins) = ''paper'' \<and>
                   [''rock'', ''paper'', ''scissors''] ! (shd rs mod 3) = ''rock'')
        then tally_after n (win + 1) loss draw en (stl ins) (stl rs)
        else tally_after n win (loss + 1) draw (en - 1) (stl ins) (stl rs)
      else (win, loss, draw, en))"

text \<open>The loop condition is false: the rounds have stopped.\<close>

definition stopped :: "int \<times> int \<times> int \<times> int \<Rightarrow> bool" where
  "stopped t = (case t of (win, loss, draw, en) \<Rightarrow> \<not> (win < 2 \<and> loss < 2 \<and> en > 0))"

text \<open>The battles recorded under a nickname; none when the nickname is no key yet.\<close>

definition history :: "battle_stats \<Rightarrow> string \<Rightarrow> battle list" where
  "history battles nm = (case battles nm of None \<Rightarrow> [] | Some bs \<Rightarrow> bs)"

text \<open>
  What the round loop guarantees when it returns, for a loop entered with \<open>w\<close> wins, \<open>l\<close>
  losses and energy \<open>en\<close>: no exception, the loop condition is false, the energy has not
  grown, has not gone below zero from a non-negative start and is untouched when it was
  not positive, and at most one of the two counters has reached 2.
\<close>

definition rounds_post :: "int \<Rightarrow> int \<Rightarrow> int \<Rightarrow> (exn option \<times> int \<times> int \<times> int \<times> int \<times> string list) \<Rightarrow> bool" where
  "rounds_post w l en res =
     (case res of (exc, w', l', d', en', out') \<Rightarrow>
        exc = None \<and> \<not> (w' < 2 \<and> l' < 2 \<and> en' > 0) \<and> en' \<le> en \<and>
        (0 \<le> en \<longrightarrow> 0 \<le> en') \<and> (en \<le> 0 \<longrightarrow> en' = en) \<and>
        (w \<le> 2 \<and> l \<le> 2 \<and> (w < 2 \<or> l < 2) \<longrightarrow> w' \<le> 2 \<and> l' \<le> 2 \<and> (w' < 2 \<or> l' < 2)))"

section \<open>A small world\<close>

text \<open>\<^verbatim>\<open>Location.__init__\<close> with its default doors: the four keys, each \<^verbatim>\<open>None\<close>.\<close>

definition empty_location :: "string \<Rightarrow> string \<Rightarrow> location" where
  "empty_location nm descr =
     \<lparr>name = nm, description = descr,
      doors = [(''west'', None), (''north'', None), (''east'', None), (''south'', None)],
      creatures = [], items = []\<rparr>"

text \<open>
  Forest (location 0) is connected east to Cave (location 1). Kimimon, the active
  Pymon (Pymon 0), stands in Forest with an adoptable creature, Kitimon, and a wild
  one, Sheep. Toromon and Marimon (Pymons 1 and 2) were captured earlier and sit on
  Kimimon's bench.
\<close>

definition forest_cave :: state where
  "forest_cave =
     \<lparr>loc_heap = (\<lambda>_. empty_location ''New room'' [])
        (0 := (empty_location ''Forest'' ''Tall trees'')
                \<lparr>doors := [(''west'', None), (''north'', None), (''east'', Some 1),
                           (''south'', None)],
                 creatures := [PymonRef 0, CreatureRef 0, CreatureRef 1],
                 items := [\<lparr>item_name = ''apple'', item_description = ''fruit'',
                            pick_up_items = True, consumable = True\<rparr>]\<rparr>,
         1 := (empty_location ''Cave'' ''Dark'')
                \<lparr>doors := [(''west'', Some 0), (''north'', None), (''east'', None),
                           (''south'', None)]\<rparr>),
      creature_heap = (\<lambda>_. \<lparr>nickname = [], creature_description = [], location = None,
                            adoptable = False\<rparr>)
        (0 := \<lparr>nickname = ''Kitimon'', creature_description = ''large blue cat'',
               location = Some 0, adoptable = True\<rparr>,
         1 := \<lparr>nickname = ''Sheep'', creature_description = ''small fluffy animal'',
               location = Some 0, adoptable = False\<rparr>),
      pymon_heap = (\<lambda>_. new_pymon ''The player'' ''Default Pymon character'' None)
        (0 := (new_pymon ''Kimimon'' ''Default Pymon character'' None)
                \<lparr>current_location := Some 0, pets := [1, 2],
                 inventory := [\<lparr>item_name = ''binocular'', item_description = ''lens'',
                                pick_up_items = True, consumable = False\<rparr>]\<rparr>,
         1 := new_pymon ''Toromon'' ''white bull'' (Some 1),
         2 := new_pymon ''Marimon'' ''red fish'' (Some 0)),
      pymon_alloc = 3,
      current_pymon = 0\<rparr>"

text \<open>The same world with the active Pymon's energy and move counter set.\<close>

definition with_energy :: "int \<Rightarrow> int \<Rightarrow> state" where
  "with_energy e t = upd_pymon 0 (\<lambda>p. p\<lparr>energy := e, track_moves := t\<rparr>) forest_cave"

section \<open>Location.connect\<close>

text \<open>
  C5, as the code has it. \<^verbatim>\<open>connect\<close> has no \<^verbatim>\<open>raise\<close> and checks nothing. For a
  direction that is not one of west, north, east and south it still stores the other
  room in the caller's slot of that name, creating the slot; the other slots of the
  caller, every other location (the other room too, unless it is the caller itself),
  and all creatures stay as they were.
\<close>

theorem connect_other_direction:
  assumes "direction \<notin> {''west'', ''north'', ''east'', ''south''}"
  shows "map_of (doors (loc_heap (connect self direction another_room s) self)) direction
           = Some (Some another_room) \<and>
         (\<forall>d. d \<noteq> direction \<longrightarrow>
            map_of (doors (loc_heap (connect self direction another_room s) self)) d
              = map_of (doors (loc_heap s self)) d) \<and>
         (\<forall>l. l \<noteq> self \<longrightarrow> loc_heap (connect self direction another_room s) l = loc_heap s l) \<and>
         creature_heap (connect self direction another_room s) = creature_heap s \<and>
         pymon_heap (connect self direction another_room s) = pymon_heap s"
  using assms
  by (auto simp: connect_def upd_loc_def opposite_directions_def update_conv')

theorem connect_other_direction_witness:
  "''up'' \<notin> {''west'', ''north'', ''east'', ''south''} \<and>
   map_of (doors (loc_heap (connect 0 ''up'' 1 forest_cave) 0)) ''up'' = Some (Some 1) \<and>
   map_of (doors (loc_heap (connect 0 ''up'' 1 forest_cave) 0)) ''east'' = Some (Some 1) \<and>
   loc_heap (connect 0 ''up'' 1 forest_cave) 1 = loc_heap forest_cave 1"
proof -
  have h: "''up'' \<notin> {''west'', ''north'', ''east'', ''south''}" by simp
  show ?thesis
    using h connect_other_direction [OF h, of 0 1 forest_cave]
    by (simp add: forest_cave_def empty_location_def)
qed

text \<open>
  C5 as the specification states it fails: connecting Forest to Cave in the direction
  ``up'' changes the doors of Forest, which had no such slot before.
\<close>

theorem connect_invalid_direction_counterexample:
  "map_of (doors (loc_heap forest_cave 0)) ''up'' = None \<and>
   map_of (doors (loc_heap (connect 0 ''up'' 1 forest_cave) 0)) ''up'' = Some (Some 1) \<and>
   doors (loc_heap (connect 0 ''up'' 1 forest_cave) 0) \<noteq> doors (loc_heap forest_cave 0)"
  by (simp add: connect_def upd_loc_def opposite_directions_def forest_cave_def
      empty_location_def)

section \<open>Pymon.move: a failed move\<close>

text \<open>
  C9. When the direction is not one of the four, or the slot of that direction in the
  current location is absent or holds \<^verbatim>\<open>None\<close>, \<^verbatim>\<open>move\<close> reports the direction error
  and nothing else happens: the whole state (every location with its creature list,
  every Pymon with its location, energy and move counter) is the one before the call,
  and no exception escapes.
\<close>

theorem move_failure_leaves_state:
  assumes "direction \<notin> {''west'', ''north'', ''east'', ''south''} \<or>
           (\<exists>cur. current_location (pymon_heap s self) = Some cur \<and>
              (map_of (doors (loc_heap s cur)) direction = None \<or>
               map_of (doors (loc_heap s cur)) direction = Some None))"
  shows "post (move self direction r s) = s \<and>
         raised (move self direction r s) = None \<and>
         printed (move self direction r s) =
           [''Error: Error: Direction - '' @ direction @ '' does not contain any location'']"
  using assms by (auto simp: move_def direction_error_def)

theorem move_failure_leaves_state_witness:
  "post (move 0 ''up'' 5 forest_cave) = forest_cave \<and>
   post (move 0 ''west'' 5 forest_cave) = forest_cave \<and>
   post (move 0 ''down'' 5 (connect 0 ''up'' 1 forest_cave)) = connect 0 ''up'' 1 forest_cave"
  using move_failure_leaves_state [of "''up''" forest_cave 0 5]
    move_failure_leaves_state [of "''west''" forest_cave 0 5]
    move_failure_leaves_state [of "''down''" "connect 0 ''up'' 1 forest_cave" 0 5]
  by (simp add: forest_cave_def empty_location_def new_pymon_def)

section \<open>Pymon.Challenge: a creature that cannot be adopted\<close>

text \<open>
  C7. When the creature named is in the challenger's location, is not the challenger
  and is not adoptable, the challenge prints exactly one line, one of the three
  flavour lines, raises nothing and returns the state it was given: energy, inventory,
  pets and location of the challenger, the creature and item lists of every location
  and the battle statistics are untouched, and no input is read.
\<close>

theorem challenge_non_adoptable:
  assumes "current_location (pymon_heap s self) = Some cur"
    and "find (\<lambda>c. nickname_of s c = creature_name) (creatures (loc_heap s cur)) = Some opp"
    and "opp \<noteq> PymonRef self"
    and "\<not> adoptable_of s opp"
  shows "\<exists>line \<in> {nickname_of s opp @ '' just ignored you.'',
                   nickname_of s opp @ '' just laughed at you.'',
                   nickname_of s opp @ '' ran away.''}.
           Challenge self creature_name ins rs now s =
             Some \<lparr>raised = None, post = s, printed = [line]\<rparr>"
proof -
  have "shd rs mod 3 = 0 \<or> shd rs mod 3 = 1 \<or> shd rs mod 3 = 2"
    by arith
  then show ?thesis
    using assms by (auto simp: Challenge_def)
qed

theorem challenge_non_adoptable_witness:
  "Challenge 0 ''Sheep'' (sconst ''rock'') (sconst 1) 0 forest_cave =
     Some \<lparr>raised = None, post = forest_cave, printed = [''Sheep just laughed at you.'']\<rparr>"
  using challenge_non_adoptable
    [of forest_cave 0 0 "''Sheep''" "CreatureRef 1" "sconst ''rock''" "sconst 1" 0]
  by (simp add: forest_cave_def empty_location_def new_pymon_def nickname_of_def
      adoptable_of_def Challenge_def)

section \<open>The round loop\<close>

lemma valid_choice:
  "random_choice r (PyList [''rock'', ''paper'', ''scissors'']) =
     Inr ([''rock'', ''paper'', ''scissors''] ! (r mod 3))"
  by simp

lemma rounds_result:
  assumes "challenge_rounds nick w l d en ins rs out = Some res"
  shows "rounds_post w l en res"
proof (rule challenge_rounds.raw_induct
         [where P = "\<lambda>nick w l d en ins rs out res. rounds_post w l en res", OF _ assms])
  fix f :: "string \<Rightarrow> int \<Rightarrow> int \<Rightarrow> int \<Rightarrow> int \<Rightarrow> string stream \<Rightarrow> nat stream \<Rightarrow> string list
     \<Rightarrow> (exn option \<times> int \<times> int \<times> int \<times> int \<times> string list) option"
  fix nick win loss draw en ins rs out y
  assume IH: "\<And>nick win loss draw en ins rs out y.
               f nick win loss draw en ins rs out = Some y \<Longrightarrow> rounds_post win loss en y"
  let ?o = "[''rock'', ''paper'', ''scissors''] ! (shd rs mod 3)"
  assume step: "(if win < 2 \<and> loss < 2 \<and> 0 < en
      then
        if lower (shd ins) \<notin> set [''rock'', ''paper'', ''scissors'']
        then f nick win loss draw en (stl ins) rs
               (out @ [''Error: Invalid choice. Try again''])
        else
          case random_choice (shd rs) (PyList [''rock'', ''paper'', ''scissors'']) of
            Inl e \<Rightarrow> Some (Some e, win, loss, draw, en, out)
          | Inr opponent_turn \<Rightarrow>
              if lower (shd ins) = opponent_turn
              then f nick win loss (draw + 1) en (stl ins) (stl rs)
                     (out @ [''Opponent chose '' @ opponent_turn @ ''.'',
                             ''Draw, no one wins this encounter''])
              else if (lower (shd ins) = ''rock'' \<and> opponent_turn = ''scissors'') \<or>
                      (lower (shd ins) = ''scissors'' \<and> opponent_turn = ''paper'') \<or>
                      (lower (shd ins) = ''paper'' \<and> opponent_turn = ''rock'')
              then f nick (win + 1) loss draw en (stl ins) (stl rs)
                     (out @ [''Opponent chose '' @ opponent_turn @ ''.'',
                             ''Your Pymon '' @ nick @ '' won this encounter!''])
              else f nick win (loss + 1) draw (en - 1) (stl ins) (stl rs)
                     (out @ [''Opponent chose '' @ opponent_turn @ ''.'',
                             ''Your Pymon '' @ nick @ '' lost this encounter.'',
                             ''Remaining Energy: '' @ str_int (en - 1)])
      else Some (None, win, loss, draw, en, out)) = Some y"
  show "rounds_post win loss en y"
  proof (cases "win < 2 \<and> loss < 2 \<and> 0 < en")
    case False
    with step have "y = (None, win, loss, draw, en, out)" by auto
    with False show ?thesis by (auto simp: rounds_post_def)
  next
    case True
    note loop = True
    from step loop
    consider out1 where "f nick win loss draw en (stl ins) rs out1 = Some y"
      | out1 where "f nick win loss (draw + 1) en (stl ins) (stl rs) out1 = Some y"
      | out1 where "f nick (win + 1) loss draw en (stl ins) (stl rs) out1 = Some y"
      | out1 where "f nick win (loss + 1) draw (en - 1) (stl ins) (stl rs) out1 = Some y"
      unfolding valid_choice sum.case by (simp only: if_True split: if_splits) blast+
    then show ?thesis
    proof cases
      case 1 from IH[OF this] show ?thesis .
    next
      case 2 from IH[OF this] show ?thesis .
    next
      case 3 from IH[OF this] loop show ?thesis
        by (cases y) (auto simp: rounds_post_def)
    next
      case 4 from IH[OF this] loop show ?thesis
        by (cases y) (auto simp: rounds_post_def)
    qed
  qed
qed



lemmas world_defs = forest_cave_def with_energy_def empty_location_def new_pymon_def

lemma lower_simps: "lower ''rock'' = ''rock''" "lower ''fire'' = ''fire''"
  by (simp_all add: lower_def lower_char_def)

lemma rounds_diverge:
  "challenge_rounds nick 0 0 0 3 (sconst ''fire'') rs out = None"
proof -
  have "\<not> (w < 2 \<and> l < 2 \<and> 0 < en \<and> ins = sconst ''fire'')"
    if "challenge_rounds nick w l d en ins rs out = Some res" for w l d en ins res
    using that
  proof (rule challenge_rounds.raw_induct
         [where P = "\<lambda>nick w l d en ins rs out res. \<not> (w < 2 \<and> l < 2 \<and> 0 < en \<and> ins = sconst ''fire'')", rotated])
    fix f :: "string \<Rightarrow> int \<Rightarrow> int \<Rightarrow> int \<Rightarrow> int \<Rightarrow> string stream \<Rightarrow> nat stream \<Rightarrow> string list
     \<Rightarrow> (exn option \<times> int \<times> int \<times> int \<times> int \<times> string list) option"
    fix nick win loss draw en ins rs out y
    assume IH: "\<And>nick win loss draw en ins rs out y.
               f nick win loss draw en ins rs out = Some y \<Longrightarrow> \<not> (win < 2 \<and> loss < 2 \<and> 0 < en \<and> ins = sconst ''fire'')"
    assume step: "(if win < 2 \<and> loss < 2 \<and> 0 < en
      then
        if lower (shd ins) \<notin> set [''rock'', ''paper'', ''scissors'']
        then f nick win loss draw en (stl ins) rs
               (out @ [''Error: Invalid choice. Try again''])
        else
          case random_choice (shd rs) (PyList [''rock'', ''paper'', ''scissors'']) of
            Inl e \<Rightarrow> Some (Some e, win, loss, draw, en, out)
          | Inr opponent_turn \<Rightarrow>
              if lower (shd ins) = opponent_turn
              then f nick win loss (draw + 1) en (stl ins) (stl rs)
                     (out @ [''Opponent chose '' @ opponent_turn @ ''.'',
                             ''Draw, no one wins this encounter''])
              else if (lower (shd ins) = ''rock'' \<and> opponent_turn = ''scissors'') \<or>
                      (lower (shd ins) = ''scissors'' \<and> opponent_turn = ''paper'') \<or>
                      (lower (shd ins) = ''paper'' \<and> opponent_turn = ''rock'')
              then f nick (win + 1) loss draw en (stl ins) (stl rs)
                     (out @ [''Opponent chose '' @ opponent_turn @ ''.'',
                             ''Your Pymon '' @ nick @ '' won this encounter!''])
              else f nick win (loss + 1) draw (en - 1) (stl ins) (stl rs)
                     (out @ [''Opponent chose '' @ opponent_turn @ ''.'',
                             ''Your Pymon '' @ nick @ '' lost this encounter.'',
                             ''Remaining Energy: '' @ str_int (en - 1)])
      else Some (None, win, loss, draw, en, out)) = Some y"
    show "\<not> (win < 2 \<and> loss < 2 \<and> 0 < en \<and> ins = sconst ''fire'')"
    proof
      assume a: "win < 2 \<and> loss < 2 \<and> 0 < en \<and> ins = sconst ''fire''"
      with step have "f nick win loss draw en (sconst ''fire'') rs
               (out @ [''Error: Invalid choice. Try again'']) = Some y"
        by (simp add: lower_simps)
      from IH[OF this] a show False by simp
    qed
  qed
  from this[of 0 0 0 3 "sconst ''fire''"] show ?thesis
    by (cases "challenge_rounds nick 0 0 0 3 (sconst ''fire'') rs out") auto
qed

lemma add_battle_eq:
  "add_battle nm opp w d l now b =
     b(nm \<mapsto> history b nm @ [\<lparr>timestamp = now, opponent = opp, wins = w, draws = d, losses = l\<rparr>])"
  by (cases "b nm") (auto simp: add_battle_def history_def Let_def)

lemma rounds_terminate:
  "3 \<le> decisive_rounds n ins rs + nat w + nat l \<Longrightarrow> 0 \<le> w \<Longrightarrow> 0 \<le> l \<Longrightarrow>
   \<exists>res. challenge_rounds nick w l d en ins rs out = Some res"
proof (induction n arbitrary: w l d en ins rs out)
  case 0
  then have nloop: "\<not> (w < 2 \<and> l < 2 \<and> 0 < en)" by auto
  show ?case by (subst challenge_rounds.simps, simp only: nloop if_False) simp
next
  case (Suc n)
  show ?case
  proof (cases "w < 2 \<and> l < 2 \<and> 0 < en")
    case False
    show ?thesis by (subst challenge_rounds.simps, simp only: False if_False) simp
  next
    case True
    note loop = True
    show ?thesis
    proof (cases "lower (shd ins) \<notin> set [''rock'', ''paper'', ''scissors'']")
      case True
      with Suc.prems have "3 \<le> decisive_rounds n (stl ins) rs + nat w + nat l" by simp
      from Suc.IH[OF this Suc.prems(2,3)] loop True show ?thesis
        by (subst challenge_rounds.simps) simp
    next
      case False
      note valid = False
      let ?o = "[''rock'', ''paper'', ''scissors''] ! (shd rs mod 3)"
      show ?thesis
      proof (cases "lower (shd ins) = ?o")
        case True
        with valid Suc.prems have "3 \<le> decisive_rounds n (stl ins) (stl rs) + nat w + nat l" by simp
        from Suc.IH[OF this Suc.prems(2,3)] loop valid True show ?thesis
          by (subst challenge_rounds.simps) (simp add: valid_choice del: random_choice.simps)
      next
        case False
        with valid Suc.prems have d: "2 \<le> decisive_rounds n (stl ins) (stl rs) + nat w + nat l" by simp
        then have "3 \<le> decisive_rounds n (stl ins) (stl rs) + nat (w + 1) + nat l"
          and "3 \<le> decisive_rounds n (stl ins) (stl rs) + nat w + nat (l + 1)"
          and "0 \<le> w + 1" and "0 \<le> l + 1"
          using Suc.prems(2,3) by linarith+
        from Suc.IH[OF this(1) this(3) Suc.prems(3)] Suc.IH[OF this(2) Suc.prems(2) this(4)]
          loop valid False show ?thesis
          by (subst challenge_rounds.simps) (simp add: valid_choice del: random_choice.simps)
      qed
    qed
  qed
qed

lemma Challenge_adoptable:
  assumes "current_location (pymon_heap s self) = Some cur"
    and "find (\<lambda>c. nickname_of s c = creature_name) (creatures (loc_heap s cur)) = Some opp"
    and "opp \<noteq> PymonRef self"
    and "adoptable_of s opp"
    and "challenge_rounds (nickname (pymon_heap s self)) 0 0 0 (energy (pymon_heap s self)) ins rs
           [''You started the challenge with '' @ nickname_of s opp @ ''!''] = Some (None, w, l, d, en, out)"
  shows "Challenge self creature_name ins rs now s =
           Some (resolve_match self opp cur w l d now out (upd_pymon self (\<lambda>p. p\<lparr>energy := en\<rparr>) s))"
  using assms by (simp add: Challenge_def)

lemma resolve_match_self:
  assumes "self < pymon_alloc s"
  shows "battle_stats (pymon_heap (post (resolve_match self opp cur w l d now out s)) self) =
           add_battle (nickname (pymon_heap s self)) (nickname_of s opp) w d l now
             (battle_stats (pymon_heap s self)) \<and>
         energy (pymon_heap (post (resolve_match self opp cur w l d now out s)) self) =
           energy (pymon_heap s self) \<and>
         current_pymon (post (resolve_match self opp cur w l d now out s)) = current_pymon s \<and>
         pymon_alloc s \<le> pymon_alloc (post (resolve_match self opp cur w l d now out s))"
  using assms
  by (auto simp: resolve_match_def upd_pymon_def upd_loc_def Let_def split: list.splits)

lemma resolve_match_raised:
  assumes "opp \<in> set (creatures (loc_heap s cur))"
  shows "raised (resolve_match self opp cur w l d now out s) =
           (if 2 \<le> w \<or> pets (pymon_heap s self) \<noteq> [] then None else Some (SystemExit 0))"
  using assms
  by (auto simp: resolve_match_def upd_pymon_def upd_loc_def Let_def split: list.splits)

lemma rounds_exit:
  "\<not> (w < 2 \<and> l < 2 \<and> 0 < en) \<Longrightarrow>
   challenge_rounds nick w l d en ins rs out = Some (None, w, l, d, en, out)"
  by (subst challenge_rounds.simps) (simp only: if_False)

lemma rounds_rock_paper:
  "w < 2 \<Longrightarrow> l < 2 \<Longrightarrow> 0 < en \<Longrightarrow>
   challenge_rounds nick w l d en (sconst ''rock'') (sconst 4) out =
   challenge_rounds nick w (l + 1) d (en - 1) (sconst ''rock'') (sconst 4)
     (out @ [''Opponent chose paper.'', ''Your Pymon '' @ nick @ '' lost this encounter.'',
             ''Remaining Energy: '' @ str_int (en - 1)])"
  by (subst challenge_rounds.simps) (simp add: lower_simps)

lemma rounds_tally:
  "stopped (tally_after m w l d en ins rs) \<Longrightarrow>
   \<exists>out'. challenge_rounds nick w l d en ins rs out =
            Some (None, fst (tally_after m w l d en ins rs),
                  fst (snd (tally_after m w l d en ins rs)),
                  fst (snd (snd (tally_after m w l d en ins rs))),
                  snd (snd (snd (tally_after m w l d en ins rs))), out')"
proof (induction m arbitrary: w l d en ins rs out)
  case 0
  then have "\<not> (w < 2 \<and> l < 2 \<and> 0 < en)" by (simp add: stopped_def)
  then show ?case by (simp add: rounds_exit)
next
  case (Suc m)
  let ?o = "[''rock'', ''paper'', ''scissors''] ! (shd rs mod 3)"
  show ?case
  proof (cases "w < 2 \<and> l < 2 \<and> 0 < en")
    case False
    then have t: "tally_after (Suc m) w l d en ins rs = (w, l, d, en)" by auto
    show ?thesis unfolding t using False by (simp add: rounds_exit)
  next
    case True
    note loop = True
    show ?thesis
    proof (cases "lower (shd ins) \<notin> set [''rock'', ''paper'', ''scissors'']")
      case True
      with loop have t: "tally_after (Suc m) w l d en ins rs =
                         tally_after m w l d en (stl ins) rs" by simp
      from loop True have c: "challenge_rounds nick w l d en ins rs out =
          challenge_rounds nick w l d en (stl ins) rs
            (out @ [''Error: Invalid choice. Try again''])"
        by (subst challenge_rounds.simps) simp
      from Suc.prems have "stopped (tally_after m w l d en (stl ins) rs)" unfolding t .
      from Suc.IH[OF this] show ?thesis unfolding t c .
    next
      case False
      note valid = False
      show ?thesis
      proof (cases "lower (shd ins) = ?o")
        case True
        with loop valid have t: "tally_after (Suc m) w l d en ins rs =
                         tally_after m w l (d + 1) en (stl ins) (stl rs)" by simp
        from loop valid True have c: "challenge_rounds nick w l d en ins rs out =
            challenge_rounds nick w l (d + 1) en (stl ins) (stl rs)
              (out @ [''Opponent chose '' @ ?o @ ''.'', ''Draw, no one wins this encounter''])"
          by (subst challenge_rounds.simps) (simp add: valid_choice del: random_choice.simps)
        from Suc.prems have "stopped (tally_after m w l (d + 1) en (stl ins) (stl rs))"
          unfolding t .
        from Suc.IH[OF this] show ?thesis unfolding t c .
      next
        case False
        note nodraw = False
        show ?thesis
        proof (cases "(lower (shd ins) = ''rock'' \<and> ?o = ''scissors'') \<or>
                      (lower (shd ins) = ''scissors'' \<and> ?o = ''paper'') \<or>
                      (lower (shd ins) = ''paper'' \<and> ?o = ''rock'')")
          case True
          with loop valid nodraw have t: "tally_after (Suc m) w l d en ins rs =
                         tally_after m (w + 1) l d en (stl ins) (stl rs)"
            by (simp only: tally_after.simps if_True if_False simp_thms)
          from loop valid nodraw True have c: "challenge_rounds nick w l d en ins rs out =
              challenge_rounds nick (w + 1) l d en (stl ins) (stl rs)
                (out @ [''Opponent chose '' @ ?o @ ''.'',
                        ''Your Pymon '' @ nick @ '' won this encounter!''])"
            by (subst challenge_rounds.simps)
               (simp only: valid_choice sum.case if_True if_False simp_thms)
          from Suc.prems have "stopped (tally_after m (w + 1) l d en (stl ins) (stl rs))"
            unfolding t .
          from Suc.IH[OF this] show ?thesis unfolding t c .
        next
          case False
          with loop valid nodraw have t: "tally_after (Suc m) w l d en ins rs =
                         tally_after m w (l + 1) d (en - 1) (stl ins) (stl rs)"
            by (simp only: tally_after.simps if_True if_False simp_thms)
          from loop valid nodraw False have c: "challenge_rounds nick w l d en ins rs out =
              challenge_rounds nick w (l + 1) d (en - 1) (stl ins) (stl rs)
                (out @ [''Opponent chose '' @ ?o @ ''.'',
                        ''Your Pymon '' @ nick @ '' lost this encounter.'',
                        ''Remaining Energy: '' @ str_int (en - 1)])"
            by (subst challenge_rounds.simps)
               (simp only: valid_choice sum.case if_True if_False simp_thms)
          from Suc.prems have "stopped (tally_after m w (l + 1) d (en - 1) (stl ins) (stl rs))"
            unfolding t .
          from Suc.IH[OF this] show ?thesis unfolding t c .
        qed
      qed
    qed
  qed
qed

lemma rounds_stop:
  assumes "challenge_rounds nick w l d en ins rs out = Some res"
  shows "\<exists>m. stopped (tally_after m w l d en ins rs)"
proof (rule challenge_rounds.raw_induct
         [where P = "\<lambda>nick w l d en ins rs out res. \<exists>m. stopped (tally_after m w l d en ins rs)",
          OF _ assms])
  fix f :: "string \<Rightarrow> int \<Rightarrow> int \<Rightarrow> int \<Rightarrow> int \<Rightarrow> string stream \<Rightarrow> nat stream \<Rightarrow> string list
     \<Rightarrow> (exn option \<times> int \<times> int \<times> int \<times> int \<times> string list) option"
  fix nick win loss draw en ins rs out y
  assume IH: "\<And>nick win loss draw en ins rs out y.
               f nick win loss draw en ins rs out = Some y \<Longrightarrow>
               \<exists>m. stopped (tally_after m win loss draw en ins rs)"
  let ?o = "[''rock'', ''paper'', ''scissors''] ! (shd rs mod 3)"
  assume step: "(if win < 2 \<and> loss < 2 \<and> 0 < en
      then
        if lower (shd ins) \<notin> set [''rock'', ''paper'', ''scissors'']
        then f nick win loss draw en (stl ins) rs
               (out @ [''Error: Invalid choice. Try again''])
        else
          case random_choice (shd rs) (PyList [''rock'', ''paper'', ''scissors'']) of
            Inl e \<Rightarrow> Some (Some e, win, loss, draw, en, out)
          | Inr opponent_turn \<Rightarrow>
              if lower (shd ins) = opponent_turn
              then f nick win loss (draw + 1) en (stl ins) (stl rs)
                     (out @ [''Opponent chose '' @ opponent_turn @ ''.'',
                             ''Draw, no one wins this encounter''])
              else if (lower (shd ins) = ''rock'' \<and> opponent_turn = ''scissors'') \<or>
                      (lower (shd ins) = ''scissors'' \<and> opponent_turn = ''paper'') \<or>
                      (lower (shd ins) = ''paper'' \<and> opponent_turn = ''rock'')
              then f nick (win + 1) loss draw en (stl ins) (stl rs)
                     (out @ [''Opponent chose '' @ opponent_turn @ ''.'',
                             ''Your Pymon '' @ nick @ '' won this encounter!''])
              else f nick win (loss + 1) draw (en - 1) (stl ins) (stl rs)
                     (out @ [''Opponent chose '' @ opponent_turn @ ''.'',
                             ''Your Pymon '' @ nick @ '' lost this encounter.'',
                             ''Remaining Energy: '' @ str_int (en - 1)])
      else Some (None, win, loss, draw, en, out)) = Some y"
  show "\<exists>m. stopped (tally_after m win loss draw en ins rs)"
  proof (cases "win < 2 \<and> loss < 2 \<and> 0 < en")
    case False
    then have "stopped (tally_after 0 win loss draw en ins rs)" by (simp add: stopped_def)
    then show ?thesis ..
  next
    case True
    note loop = True
    show ?thesis
    proof (cases "lower (shd ins) \<notin> set [''rock'', ''paper'', ''scissors'']")
      case True
      with loop have t: "tally_after (Suc m) win loss draw en ins rs =
                         tally_after m win loss draw en (stl ins) rs" for m by simp
      from step loop True have "f nick win loss draw en (stl ins) rs
               (out @ [''Error: Invalid choice. Try again'']) = Some y" by simp
      from IH[OF this] obtain m where "stopped (tally_after m win loss draw en (stl ins) rs)" ..
      then have "stopped (tally_after (Suc m) win loss draw en ins rs)" unfolding t .
      then show ?thesis ..
    next
      case False
      note valid = False
      show ?thesis
      proof (cases "lower (shd ins) = ?o")
        case True
        with loop valid have t: "tally_after (Suc m) win loss draw en ins rs =
                         tally_after m win loss (draw + 1) en (stl ins) (stl rs)" for m by simp
        from step have "f nick win loss (draw + 1) en (stl ins) (stl rs)
              (out @ [''Opponent chose '' @ ?o @ ''.'', ''Draw, no one wins this encounter''])
              = Some y"
          using loop valid True[symmetric]
          by (simp only: valid_choice sum.case if_True if_False simp_thms)
        from IH[OF this] obtain m
          where "stopped (tally_after m win loss (draw + 1) en (stl ins) (stl rs))" ..
        then have "stopped (tally_after (Suc m) win loss draw en ins rs)" unfolding t .
        then show ?thesis ..
      next
        case False
        note nodraw = False
        show ?thesis
        proof (cases "(lower (shd ins) = ''rock'' \<and> ?o = ''scissors'') \<or>
                      (lower (shd ins) = ''scissors'' \<and> ?o = ''paper'') \<or>
                      (lower (shd ins) = ''paper'' \<and> ?o = ''rock'')")
          case True
          with loop valid nodraw have t: "tally_after (Suc m) win loss draw en ins rs =
                         tally_after m (win + 1) loss draw en (stl ins) (stl rs)" for m
            by (simp only: tally_after.simps if_True if_False simp_thms)
          from step have "f nick (win + 1) loss draw en (stl ins) (stl rs)
                (out @ [''Opponent chose '' @ ?o @ ''.'',
                        ''Your Pymon '' @ nick @ '' won this encounter!'']) = Some y"
            using loop valid nodraw True
            by (simp only: valid_choice sum.case if_True if_False simp_thms)
          from IH[OF this] obtain m
            where "stopped (tally_after m (win + 1) loss draw en (stl ins) (stl rs))" ..
          then have "stopped (tally_after (Suc m) win loss draw en ins rs)" unfolding t .
          then show ?thesis ..
        next
          case False
          with loop valid nodraw have t: "tally_after (Suc m) win loss draw en ins rs =
                         tally_after m win (loss + 1) draw (en - 1) (stl ins) (stl rs)" for m
            by (simp only: tally_after.simps if_True if_False simp_thms)
          from step have "f nick win (loss + 1) draw (en - 1) (stl ins) (stl rs)
                (out @ [''Opponent chose '' @ ?o @ ''.'',
                        ''Your Pymon '' @ nick @ '' lost this encounter.'',
                        ''Remaining Energy: '' @ str_int (en - 1)]) = Some y"
            using loop valid nodraw False
            by (simp only: valid_choice sum.case if_True if_False simp_thms)
          from IH[OF this] obtain m
            where "stopped (tally_after m win (loss + 1) draw (en - 1) (stl ins) (stl rs))" ..
          then have "stopped (tally_after (Suc m) win loss draw en ins rs)" unfolding t .
          then show ?thesis ..
        qed
      qed
    qed
  qed
qed

lemma tally_stable:
  "stopped (tally_after m w l d en ins rs) \<Longrightarrow> stopped (tally_after k w l d en ins rs) \<Longrightarrow>
   tally_after k w l d en ins rs = tally_after m w l d en ins rs"
  using rounds_tally[of m w l d en ins rs "[]" "[]"] rounds_tally[of k w l d en ins rs "[]" "[]"]
  by (auto simp: prod_eq_iff)

section \<open>Pymon.Challenge: termination and the battle record\<close>

text \<open>
  C1, as the code has it. Take a challenge of a present, adoptable creature other than
  the challenger, by a Pymon that is an allocated object. It returns whenever the
  player's lines and the opponent's draws hold three decisive rounds (a valid choice
  that differs from the opponent's) among the first \<open>n\<close> lines, for some \<open>n\<close>. Whenever
  it returns, with or without three decisive rounds, it ends normally or by the game
  over exit, and there is a number \<open>m\<close> of lines after which the rounds have stopped with
  \<open>w\<close> wins, \<open>l\<close> losses, \<open>d\<close> draws and energy \<open>en\<close>, the same at every number of lines at
  which they have stopped: at least one of \<open>w \<ge> 2\<close>, \<open>l \<ge> 2\<close> and \<open>en \<le> 0\<close> holds, \<open>w\<close> and
  \<open>l\<close> are not both 2 or more, the challenger's energy is \<open>en\<close>, and the challenger's
  statistics are the old ones with exactly one record appended under its nickname,
  holding \<open>w\<close>, \<open>d\<close> and \<open>l\<close>.
\<close>

theorem challenge_match_terminates:
  assumes "current_location (pymon_heap s self) = Some cur"
    and "find (\<lambda>c. nickname_of s c = creature_name) (creatures (loc_heap s cur)) = Some opp"
    and "opp \<noteq> PymonRef self"
    and "adoptable_of s opp"
    and "self < pymon_alloc s"
  shows "(3 \<le> decisive_rounds n ins rs \<longrightarrow>
            Challenge self creature_name ins rs now s \<noteq> None) \<and>
         (\<forall>out. Challenge self creature_name ins rs now s = Some out \<longrightarrow>
            (\<exists>m w l d en.
               tally_after m 0 0 0 (energy (pymon_heap s self)) ins rs = (w, l, d, en) \<and>
               (\<forall>k. stopped (tally_after k 0 0 0 (energy (pymon_heap s self)) ins rs) \<longrightarrow>
                    tally_after k 0 0 0 (energy (pymon_heap s self)) ins rs = (w, l, d, en)) \<and>
               (2 \<le> w \<or> 2 \<le> l \<or> en \<le> 0) \<and> \<not> (2 \<le> w \<and> 2 \<le> l) \<and>
               energy (pymon_heap (post out) self) = en \<and>
               (raised out = None \<or> raised out = Some (SystemExit 0)) \<and>
               battle_stats (pymon_heap (post out) self) =
                 (battle_stats (pymon_heap s self))
                   (nickname (pymon_heap s self) \<mapsto>
                      history (battle_stats (pymon_heap s self)) (nickname (pymon_heap s self)) @
                      [\<lparr>timestamp = now, opponent = nickname_of s opp,
                        wins = w, draws = d, losses = l\<rparr>])))"
proof (intro conjI impI allI)
  let ?start = "[''You started the challenge with '' @ nickname_of s opp @ ''!'']"
  let ?nick = "nickname (pymon_heap s self)"
  let ?e = "energy (pymon_heap s self)"
  let ?rounds = "challenge_rounds ?nick 0 0 0 ?e ins rs ?start"
  have ch: "Challenge self creature_name ins rs now s =
      (case ?rounds of
         None \<Rightarrow> None
       | Some (exc, win, loss, draw, en, out) \<Rightarrow>
           let s0 = upd_pymon self (\<lambda>p. p\<lparr>energy := en\<rparr>) s
           in (case exc of
                 Some e \<Rightarrow> Some \<lparr>raised = Some e, post = s0, printed = out\<rparr>
               | None \<Rightarrow> Some (resolve_match self opp cur win loss draw now out s0)))"
    using assms(1-4) by (simp add: Challenge_def)
  {
    assume "3 \<le> decisive_rounds n ins rs"
    then have "3 \<le> decisive_rounds n ins rs + nat 0 + nat 0" by simp
    from rounds_terminate[OF this, of ?nick 0 ?e ?start]
    obtain res where res: "?rounds = Some res" by auto
    show "Challenge self creature_name ins rs now s \<noteq> None"
      unfolding ch res by (simp add: Let_def split: prod.splits option.splits)
  }
  {
    fix out
    assume out: "Challenge self creature_name ins rs now s = Some out"
    then obtain res where res: "?rounds = Some res"
      unfolding ch by (cases ?rounds) simp_all
    from rounds_stop[OF res] obtain m where st: "stopped (tally_after m 0 0 0 ?e ins rs)" ..
    obtain w l d en where t: "tally_after m 0 0 0 ?e ins rs = (w, l, d, en)"
      by (cases "tally_after m 0 0 0 ?e ins rs") auto
    from rounds_tally[OF st, of ?nick ?start] res t
    obtain pr where r: "res = (None, w, l, d, en, pr)" by auto
    from rounds_result[OF res] r
    have inv: "\<not> (w < 2 \<and> l < 2 \<and> en > 0)" "w \<le> 2 \<and> l \<le> 2 \<and> (w < 2 \<or> l < 2)"
      by (auto simp: rounds_post_def)
    let ?s0 = "upd_pymon self (\<lambda>p. p\<lparr>energy := en\<rparr>) s"
    let ?out = "resolve_match self opp cur w l d now pr ?s0"
    from out res r have o: "out = ?out" unfolding ch by simp
    have alloc: "self < pymon_alloc ?s0" using assms(5) by (simp add: upd_pymon_def)
    have mem: "opp \<in> set (creatures (loc_heap ?s0 cur))"
      using assms(2) by (auto simp: find_Some_iff upd_pymon_def)
    have s0: "nickname (pymon_heap ?s0 self) = ?nick" "nickname_of ?s0 opp = nickname_of s opp"
      "battle_stats (pymon_heap ?s0 self) = battle_stats (pymon_heap s self)"
      "energy (pymon_heap ?s0 self) = en"
      using assms(3) by (auto simp: upd_pymon_def nickname_of_def split: cref.splits)
    from resolve_match_self[OF alloc, of opp cur w l d now pr] s0
    have stats: "battle_stats (pymon_heap (post ?out) self) =
               (battle_stats (pymon_heap s self))
                 (?nick \<mapsto> history (battle_stats (pymon_heap s self)) ?nick @
                    [\<lparr>timestamp = now, opponent = nickname_of s opp,
                      wins = w, draws = d, losses = l\<rparr>])"
      and en: "energy (pymon_heap (post ?out) self) = en"
      by (simp_all add: add_battle_eq)
    from resolve_match_raised[OF mem, of self w l d now pr]
    have rs: "raised ?out = None \<or> raised ?out = Some (SystemExit 0)" by simp
    have uniq: "\<forall>k. stopped (tally_after k 0 0 0 ?e ins rs) \<longrightarrow>
                    tally_after k 0 0 0 ?e ins rs = (w, l, d, en)"
      using tally_stable[OF st] t by auto
    from inv have ex: "(2 \<le> w \<or> 2 \<le> l \<or> en \<le> 0) \<and> \<not> (2 \<le> w \<and> 2 \<le> l)" by auto
    from t uniq ex en rs stats
    show "\<exists>m w l d en.
               tally_after m 0 0 0 ?e ins rs = (w, l, d, en) \<and>
               (\<forall>k. stopped (tally_after k 0 0 0 ?e ins rs) \<longrightarrow>
                    tally_after k 0 0 0 ?e ins rs = (w, l, d, en)) \<and>
               (2 \<le> w \<or> 2 \<le> l \<or> en \<le> 0) \<and> \<not> (2 \<le> w \<and> 2 \<le> l) \<and>
               energy (pymon_heap (post out) self) = en \<and>
               (raised out = None \<or> raised out = Some (SystemExit 0)) \<and>
               battle_stats (pymon_heap (post out) self) =
                 (battle_stats (pymon_heap s self))
                   (?nick \<mapsto>
                      history (battle_stats (pymon_heap s self)) ?nick @
                      [\<lparr>timestamp = now, opponent = nickname_of s opp,
                        wins = w, draws = d, losses = l\<rparr>])"
      unfolding o by blast
  }
qed

text \<open>
  Three times rock against paper in the small world: the match returns after two lost
  rounds, with energy 1 and the record of no win, no draw and two losses.
\<close>

theorem challenge_match_terminates_witness:
  "3 \<le> decisive_rounds (Suc (Suc (Suc 0))) (sconst ''rock'') (sconst 4) \<and>
   Challenge 0 ''Kitimon'' (sconst ''rock'') (sconst 4) 0 forest_cave \<noteq> None \<and>
   tally_after (Suc (Suc 0)) 0 0 0 3 (sconst ''rock'') (sconst 4) = (0, 2, 0, 1) \<and>
   energy (pymon_heap (post (the (Challenge 0 ''Kitimon'' (sconst ''rock'') (sconst 4) 0
     forest_cave))) 0) = 1 \<and>
   history (battle_stats (pymon_heap (post (the (Challenge 0 ''Kitimon'' (sconst ''rock'')
     (sconst 4) 0 forest_cave))) 0)) ''Kimimon'' =
     [\<lparr>timestamp = 0, opponent = ''Kitimon'', wins = 0, draws = 0, losses = 2\<rparr>]"
proof -
  let ?ch = "Challenge 0 ''Kitimon'' (sconst ''rock'') (sconst 4) 0 forest_cave"
  have h: "current_location (pymon_heap forest_cave 0) = Some 0"
    "find (\<lambda>c. nickname_of forest_cave c = ''Kitimon'') (creatures (loc_heap forest_cave 0))
       = Some (CreatureRef 0)"
    "CreatureRef 0 \<noteq> PymonRef 0"
    "adoptable_of forest_cave (CreatureRef 0)"
    "0 < pymon_alloc forest_cave"
    by (simp_all add: world_defs nickname_of_def adoptable_of_def)
  have d: "3 \<le> decisive_rounds (Suc (Suc (Suc 0))) (sconst ''rock'') (sconst 4)"
    by (simp add: lower_simps)
  have tl: "tally_after (Suc (Suc 0)) 0 0 0 3 (sconst ''rock'') (sconst 4) = (0, 2, 0, 1)"
    by (simp add: lower_simps)
  have st: "stopped (tally_after (Suc (Suc 0)) 0 0 0 3 (sconst ''rock'') (sconst 4))"
    unfolding tl by (simp add: stopped_def)
  have w0: "energy (pymon_heap forest_cave 0) = 3"
    "nickname (pymon_heap forest_cave 0) = ''Kimimon''"
    "nickname_of forest_cave (CreatureRef 0) = ''Kitimon''"
    "history (battle_stats (pymon_heap forest_cave 0)) ''Kimimon'' = []"
    by (simp_all add: world_defs nickname_of_def history_def)
  note T = challenge_match_terminates[OF h, where n = "Suc (Suc (Suc 0))"
      and ins = "sconst ''rock''" and rs = "sconst 4" and now = 0]
  from T d have ne: "?ch \<noteq> None" by blast
  then have out: "?ch = Some (the ?ch)" by simp
  from T out obtain m w l d' en where
    u: "\<forall>k. stopped (tally_after k 0 0 0 (energy (pymon_heap forest_cave 0))
                     (sconst ''rock'') (sconst 4)) \<longrightarrow>
            tally_after k 0 0 0 (energy (pymon_heap forest_cave 0)) (sconst ''rock'') (sconst 4)
              = (w, l, d', en)"
    and e: "energy (pymon_heap (post (the ?ch)) 0) = en"
    and b: "battle_stats (pymon_heap (post (the ?ch)) 0) =
             (battle_stats (pymon_heap forest_cave 0))
               (nickname (pymon_heap forest_cave 0) \<mapsto>
                  history (battle_stats (pymon_heap forest_cave 0))
                    (nickname (pymon_heap forest_cave 0)) @
                  [\<lparr>timestamp = 0, opponent = nickname_of forest_cave (CreatureRef 0),
                    wins = w, draws = d', losses = l\<rparr>])"
    by blast
  from u[rule_format, of "Suc (Suc 0)"] st tl have v: "w = 0" "l = 2" "d' = 0" "en = 1"
    unfolding w0 by simp_all
  from e v have 1: "energy (pymon_heap (post (the ?ch)) 0) = 1" by simp
  from b v have 2: "history (battle_stats (pymon_heap (post (the ?ch)) 0)) ''Kimimon'' =
     [\<lparr>timestamp = 0, opponent = ''Kitimon'', wins = 0, draws = 0, losses = 2\<rparr>]"
    unfolding w0 by (simp add: history_def)
  from d ne tl 1 2 show ?thesis by blast
qed

text \<open>
  C1 as the specification states it fails in three ways. A player who only ever types
  ``fire'' is asked again for ever: the match does not return. With energy 2, two lost
  rounds end the loop with loss = 2 and energy = 0 together, so not exactly one of the
  three conditions holds. With energy \<open>-1\<close>, which eight moves produce, the loop is not
  entered and the match ends with win = loss = 0 and energy \<open>-1\<close>: none of the three holds.
\<close>

theorem challenge_match_counterexample:
  "Challenge 0 ''Kitimon'' (sconst ''fire'') (sconst 4) 0 forest_cave = None \<and>
   Challenge 0 ''Kitimon'' (sconst ''rock'') (sconst 4) 0 (with_energy 2 0) \<noteq> None \<and>
   energy (pymon_heap (post (the (Challenge 0 ''Kitimon'' (sconst ''rock'') (sconst 4) 0
     (with_energy 2 0)))) 0) = 0 \<and>
   history (battle_stats (pymon_heap (post (the (Challenge 0 ''Kitimon'' (sconst ''rock'')
     (sconst 4) 0 (with_energy 2 0)))) 0)) ''Kimimon'' =
     [\<lparr>timestamp = 0, opponent = ''Kitimon'', wins = 0, draws = 0, losses = 2\<rparr>] \<and>
   Challenge 0 ''Kitimon'' (sconst ''rock'') (sconst 4) 0 (with_energy (- 1) 0) \<noteq> None \<and>
   energy (pymon_heap (post (the (Challenge 0 ''Kitimon'' (sconst ''rock'') (sconst 4) 0
     (with_energy (- 1) 0)))) 0) = - 1 \<and>
   history (battle_stats (pymon_heap (post (the (Challenge 0 ''Kitimon'' (sconst ''rock'')
     (sconst 4) 0 (with_energy (- 1) 0)))) 0)) ''Kimimon'' =
     [\<lparr>timestamp = 0, opponent = ''Kitimon'', wins = 0, draws = 0, losses = 0\<rparr>]"
  by (simp add: Challenge_def world_defs nickname_of_def adoptable_of_def upd_pymon_def
      rounds_diverge rounds_exit rounds_rock_paper resolve_match_def add_battle_eq history_def
      Let_def)

section \<open>Pymon.Challenge: a challenger without energy\<close>



section \<open>State updates and successful moves\<close>

lemma upd_loc_frame:
  "pymon_heap (upd_loc l f s) = pymon_heap s"
  "creature_heap (upd_loc l f s) = creature_heap s"
  "current_pymon (upd_loc l f s) = current_pymon s"
  "pymon_alloc (upd_loc l f s) = pymon_alloc s"
  "loc_heap (upd_loc l f s) l' = (if l' = l then f (loc_heap s l) else loc_heap s l')"
  by (simp_all add: upd_loc_def)

lemma upd_pymon_frame:
  "loc_heap (upd_pymon p f s) = loc_heap s"
  "creature_heap (upd_pymon p f s) = creature_heap s"
  "current_pymon (upd_pymon p f s) = current_pymon s"
  "pymon_alloc (upd_pymon p f s) = pymon_alloc s"
  "pymon_heap (upd_pymon p f s) q = (if q = p then f (pymon_heap s p) else pymon_heap s q)"
  by (simp_all add: upd_pymon_def)

lemma add_creature_frame:
  "pymon_heap (add_creature l c s) = pymon_heap s"
  "creature_heap (add_creature l c s) = creature_heap s"
  "current_pymon (add_creature l c s) = current_pymon s"
  "pymon_alloc (add_creature l c s) = pymon_alloc s"
  by (simp_all add: add_creature_def upd_loc_frame)

lemmas frame_simps = upd_loc_frame upd_pymon_frame add_creature_frame

lemma random_escape_frame:
  "energy (pymon_heap (post (random_escape self r s)) p) = energy (pymon_heap s p)"
  "track_moves (pymon_heap (post (random_escape self r s)) p) = track_moves (pymon_heap s p)"
  "current_pymon (post (random_escape self r s)) = current_pymon s"
  "pymon_alloc (post (random_escape self r s)) = pymon_alloc s"
  by (simp_all add: random_escape_def frame_simps Let_def split: option.splits sum.splits)

lemma door_takenE:
  assumes "door_taken self d s"
  obtains cur new where "d \<in> set [''west'', ''north'', ''east'', ''south'']"
    and "current_location (pymon_heap s self) = Some cur"
    and "map_of (doors (loc_heap s cur)) d = Some (Some new)"
proof -
  from assms have d: "d \<in> set [''west'', ''north'', ''east'', ''south'']"
    unfolding door_taken_def by (rule conjunct1)
  from assms have c: "(case current_location (pymon_heap s self) of
         None \<Rightarrow> False
       | Some cur \<Rightarrow>
           (case map_of (doors (loc_heap s cur)) d of
              Some (Some nl) \<Rightarrow> True
            | _ \<Rightarrow> False))"
    unfolding door_taken_def by (rule conjunct2)
  then obtain cur where cur: "current_location (pymon_heap s self) = Some cur"
    by (cases "current_location (pymon_heap s self)") simp_all
  with c obtain new where "map_of (doors (loc_heap s cur)) d = Some (Some new)"
    by (simp split: option.splits)
  with d cur show ?thesis using that by blast
qed

lemma move_not_taken:
  assumes "\<not> door_taken self d s"
  shows "post (move self d r s) = s"
proof (cases "d \<in> set [''west'', ''north'', ''east'', ''south'']")
  case False
  then show ?thesis by (simp add: move_def direction_error_def del: set_simps)
next
  case True
  note dir = True
  show ?thesis
  proof (cases "current_location (pymon_heap s self)")
    case None
    with dir show ?thesis by (simp add: move_def del: set_simps)
  next
    case (Some cur)
    with assms dir have "\<not> (\<exists>new. map_of (doors (loc_heap s cur)) d = Some (Some new))"
      by (simp add: door_taken_def del: set_simps split: option.splits)
    with dir Some show ?thesis
      by (simp add: move_def direction_error_def del: set_simps split: option.splits)
  qed
qed

lemma move_taken:
  assumes "door_taken self d s"
  shows "energy (pymon_heap (post (move self d r s)) self) =
           (if track_moves (pymon_heap s self) + 1 \<ge> 2
            then energy (pymon_heap s self) - 1 else energy (pymon_heap s self))"
    and "track_moves (pymon_heap (post (move self d r s)) self) =
           (if track_moves (pymon_heap s self) + 1 \<ge> 2
            then 0 else track_moves (pymon_heap s self) + 1)"
    and "current_pymon (post (move self d r s)) = current_pymon s"
    and "pymon_alloc (post (move self d r s)) = pymon_alloc s"
proof -
  from assms obtain cur new where h: "d \<in> set [''west'', ''north'', ''east'', ''south'']"
    "current_location (pymon_heap s self) = Some cur"
    "map_of (doors (loc_heap s cur)) d = Some (Some new)"
    by (rule door_takenE)
  define s1 where "s1 = (if PymonRef self \<in> set (creatures (loc_heap s cur))
                           then upd_loc cur
                                  (\<lambda>L. L\<lparr>creatures := remove1 (PymonRef self) (creatures L)\<rparr>) s
                           else s)"
  have s1: "pymon_heap s1 = pymon_heap s" "current_pymon s1 = current_pymon s"
    "pymon_alloc s1 = pymon_alloc s"
    by (simp_all add: s1_def frame_simps)
  have mv: "move self d r s =
      (let s2 = add_creature new (PymonRef self) s1;
                     s3 = upd_pymon self (\<lambda>p. p\<lparr>current_location := Some new\<rparr>) s2;
                     out1 = [''You moved to:  '' @ name (loc_heap s3 new)];
                     s4 = upd_pymon self (\<lambda>p. p\<lparr>track_moves := track_moves p + 1\<rparr>) s3
                 in if track_moves (pymon_heap s4 self) \<ge> 2
                    then
                      let s5 = upd_pymon self (\<lambda>p. p\<lparr>track_moves := 0\<rparr>) s4;
                          s6 = upd_pymon self (\<lambda>p. p\<lparr>energy := energy p - 1\<rparr>) s5;
                          out2 = out1 @ [''Your pymon energy decreased by 1. Current Energy: '' @
                                         str_int (energy (pymon_heap s6 self))]
                      in if energy (pymon_heap s6 self) \<le> 0
                         then (let esc = random_escape self r s6
                               in esc\<lparr>printed := out2 @ printed esc\<rparr>)
                         else \<lparr>raised = None, post = s6, printed = out2\<rparr>
                    else \<lparr>raised = None, post = s4, printed = out1\<rparr>)"
    unfolding move_def s1_def using h by (simp only: if_not_P not_not option.case Let_def)
  show "energy (pymon_heap (post (move self d r s)) self) =
           (if track_moves (pymon_heap s self) + 1 \<ge> 2
            then energy (pymon_heap s self) - 1 else energy (pymon_heap s self))"
    unfolding mv Let_def by (simp add: frame_simps random_escape_frame s1)
  show "track_moves (pymon_heap (post (move self d r s)) self) =
           (if track_moves (pymon_heap s self) + 1 \<ge> 2
            then 0 else track_moves (pymon_heap s self) + 1)"
    unfolding mv Let_def by (simp add: frame_simps random_escape_frame s1)
  show "current_pymon (post (move self d r s)) = current_pymon s"
    unfolding mv Let_def by (simp add: frame_simps random_escape_frame s1)
  show "pymon_alloc (post (move self d r s)) = pymon_alloc s"
    unfolding mv Let_def by (simp add: frame_simps random_escape_frame s1)
qed

lemma move_pymon_post: "post (move_pymon d r s) = post (move (current_pymon s) d r s)"
  by (simp add: move_pymon_def Let_def split: option.splits exn.splits)

lemma move_pymon_current: "current_pymon (post (move_pymon d r s)) = current_pymon s"
  by (cases "door_taken (current_pymon s) d s")
     (simp_all add: move_pymon_post move_taken move_not_taken)

lemma moves_current: "current_pymon (moves ds s) = current_pymon s"
  by (induction ds arbitrary: s) (auto simp: move_pymon_current)

lemma moves_law:
  assumes "track_moves (pymon_heap s (current_pymon s)) = t" and "t = 0 \<or> t = 1"
  shows "track_moves (pymon_heap (moves ds s) (current_pymon s)) =
           (t + int (successful_moves ds s)) mod 2 \<and>
         energy (pymon_heap (moves ds s) (current_pymon s)) =
           energy (pymon_heap s (current_pymon s)) - (t + int (successful_moves ds s)) div 2"
  using assms
proof (induction ds arbitrary: s t)
  case Nil
  then show ?case by auto
next
  case (Cons a ds)
  obtain d r where a: "a = (d, r)" by (cases a)
  let ?s = "post (move_pymon d r s)"
  have cp: "current_pymon ?s = current_pymon s" by (rule move_pymon_current)
  show ?case
  proof (cases "door_taken (current_pymon s) d s")
    case False
    then have same: "?s = s" by (simp add: move_pymon_post move_not_taken)
    from Cons.IH[of s t] Cons.prems False same a show ?thesis by simp
  next
    case True
    show ?thesis
    proof (cases "t = 0")
      case True
      with \<open>door_taken (current_pymon s) d s\<close> Cons.prems
      have "track_moves (pymon_heap ?s (current_pymon ?s)) = 1"
        and e: "energy (pymon_heap ?s (current_pymon ?s)) = energy (pymon_heap s (current_pymon s))"
        by (simp_all add: move_pymon_post move_taken cp)
      from Cons.IH[OF this(1)] e cp a \<open>door_taken (current_pymon s) d s\<close> True
      show ?thesis by (simp add: add.commute)
    next
      case False
      with Cons.prems have t: "t = 1" by simp
      with \<open>door_taken (current_pymon s) d s\<close> Cons.prems
      have "track_moves (pymon_heap ?s (current_pymon ?s)) = 0"
        and e: "energy (pymon_heap ?s (current_pymon ?s)) = energy (pymon_heap s (current_pymon s)) - 1"
        by (simp_all add: move_pymon_post move_taken cp)
      from Cons.IH[OF this(1)] e cp a \<open>door_taken (current_pymon s) d s\<close> t
      show ?thesis by simp
    qed
  qed
qed

section \<open>Pymon.move: the energy law\<close>

text \<open>
  C6. For a Pymon whose move counter is 0, as it is at creation, and any list of move
  commands \<open>ds\<close> with \<open>k\<close> successful moves among them: the energy after \<open>ds\<close> is the
  initial energy minus \<open>k div 2\<close>. A further move that succeeds is the successful move
  number \<open>k + 1\<close>: when that number is even (\<open>k\<close> odd) it takes one unit of energy and
  resets the counter to 0, when it is odd (\<open>k\<close> even) it leaves the energy and sets the
  counter to 1. A move that fails leaves the whole state as it is.
\<close>

theorem move_energy_law:
  assumes "track_moves (pymon_heap s (current_pymon s)) = 0"
  shows "energy (pymon_heap (moves ds s) (current_pymon s)) =
           energy (pymon_heap s (current_pymon s)) - int (successful_moves ds s div 2) \<and>
         (door_taken (current_pymon s) d (moves ds s) \<and> odd (successful_moves ds s) \<longrightarrow>
            energy (pymon_heap (post (move_pymon d r (moves ds s))) (current_pymon s)) =
              energy (pymon_heap (moves ds s) (current_pymon s)) - 1 \<and>
            track_moves (pymon_heap (post (move_pymon d r (moves ds s))) (current_pymon s)) = 0) \<and>
         (door_taken (current_pymon s) d (moves ds s) \<and> even (successful_moves ds s) \<longrightarrow>
            energy (pymon_heap (post (move_pymon d r (moves ds s))) (current_pymon s)) =
              energy (pymon_heap (moves ds s) (current_pymon s)) \<and>
            track_moves (pymon_heap (post (move_pymon d r (moves ds s))) (current_pymon s)) = 1) \<and>
         (\<not> door_taken (current_pymon s) d (moves ds s) \<longrightarrow>
            post (move_pymon d r (moves ds s)) = moves ds s)"
proof -
  let ?k = "successful_moves ds s"
  let ?s1 = "moves ds s"
  from moves_law[OF assms, of ds]
  have tr: "track_moves (pymon_heap ?s1 (current_pymon s)) = int ?k mod 2"
    and en: "energy (pymon_heap ?s1 (current_pymon s)) =
             energy (pymon_heap s (current_pymon s)) - int ?k div 2"
    by simp_all
  have cp: "current_pymon ?s1 = current_pymon s" by (rule moves_current)
  have odd: "odd ?k \<Longrightarrow> int ?k mod 2 = 1" and even: "even ?k \<Longrightarrow> int ?k mod 2 = 0"
    by presburger+
  have 1: "energy (pymon_heap ?s1 (current_pymon s)) =
           energy (pymon_heap s (current_pymon s)) - int (?k div 2)"
    using en by (simp add: zdiv_int)
  have 2: "door_taken (current_pymon s) d ?s1 \<and> odd ?k \<longrightarrow>
            energy (pymon_heap (post (move_pymon d r ?s1)) (current_pymon s)) =
              energy (pymon_heap ?s1 (current_pymon s)) - 1 \<and>
            track_moves (pymon_heap (post (move_pymon d r ?s1)) (current_pymon s)) = 0"
    using tr odd by (simp add: move_pymon_post cp move_taken)
  have 3: "door_taken (current_pymon s) d ?s1 \<and> even ?k \<longrightarrow>
            energy (pymon_heap (post (move_pymon d r ?s1)) (current_pymon s)) =
              energy (pymon_heap ?s1 (current_pymon s)) \<and>
            track_moves (pymon_heap (post (move_pymon d r ?s1)) (current_pymon s)) = 1"
    using tr even by (simp add: move_pymon_post cp move_taken)
  have 4: "\<not> door_taken (current_pymon s) d ?s1 \<longrightarrow> post (move_pymon d r ?s1) = ?s1"
    by (simp add: move_pymon_post cp move_not_taken)
  from 1 2 3 4 show ?thesis by blast
qed

text \<open>After one move east in the small world, the move west is the second successful one.\<close>

theorem move_energy_law_witness:
  "track_moves (pymon_heap forest_cave (current_pymon forest_cave)) = 0 \<and>
   door_taken 0 ''west'' (moves [(''east'', 0)] forest_cave) \<and>
   odd (successful_moves [(''east'', 0)] forest_cave) \<and>
   energy (pymon_heap (moves [(''east'', 0)] forest_cave) 0) = 3 \<and>
   energy (pymon_heap (post (move_pymon ''west'' 0 (moves [(''east'', 0)] forest_cave))) 0) = 2 \<and>
   post (move_pymon ''north'' 0 (moves [(''east'', 0)] forest_cave)) = moves [(''east'', 0)] forest_cave"
proof -
  have h: "track_moves (pymon_heap forest_cave (current_pymon forest_cave)) = 0"
    by (simp add: forest_cave_def new_pymon_def)
  have cp: "current_pymon forest_cave = 0"
    by (simp add: forest_cave_def)
  have a: "door_taken 0 ''west'' (moves [(''east'', 0)] forest_cave)"
    "\<not> door_taken 0 ''north'' (moves [(''east'', 0)] forest_cave)"
    "odd (successful_moves [(''east'', 0)] forest_cave)"
    "energy (pymon_heap (moves [(''east'', 0)] forest_cave) 0) = 3"
    by code_simp+
  from move_energy_law[OF h, of "[(''east'', 0)]" "''west''" 0]
    move_energy_law[OF h, of "[(''east'', 0)]" "''north''" 0] h a cp
  show ?thesis by simp
qed

lemma Challenge_energy:
  assumes "Challenge self nm ins rs now s = Some out" and "self < pymon_alloc s"
  shows "energy (pymon_heap (post out) self) \<le> energy (pymon_heap s self) \<and>
         (0 \<le> energy (pymon_heap s self) \<longrightarrow> 0 \<le> energy (pymon_heap (post out) self)) \<and>
         current_pymon (post out) = current_pymon s \<and>
         pymon_alloc s \<le> pymon_alloc (post out)"
proof (cases "current_location (pymon_heap s self)")
  case None
  with assms show ?thesis by (auto simp: Challenge_def)
next
  case (Some cur)
  note cur = Some
  show ?thesis
  proof (cases "find (\<lambda>c. nickname_of s c = nm) (creatures (loc_heap s cur))")
    case None
    with assms cur show ?thesis by (auto simp: Challenge_def)
  next
    case (Some opp)
    note opp = Some
    show ?thesis
    proof (cases "opp = PymonRef self \<or> \<not> adoptable_of s opp")
      case True
      with assms cur opp show ?thesis
        by (auto simp: Challenge_def split: if_splits)
    next
      case False
      let ?r = "challenge_rounds (nickname (pymon_heap s self)) 0 0 0
                         (energy (pymon_heap s self)) ins rs
                         [''You started the challenge with '' @ nickname_of s opp @ ''!'']"
      from assms(1) cur opp False obtain res where res: "?r = Some res"
        by (cases ?r) (auto simp: Challenge_def)
      obtain exc w l d en pr where r: "res = (exc, w, l, d, en, pr)" by (cases res) auto
      from rounds_result[OF res] r
      have p: "exc = None" "en \<le> energy (pymon_heap s self)"
        "0 \<le> energy (pymon_heap s self) \<longrightarrow> 0 \<le> en"
        by (auto simp: rounds_post_def)
      let ?s0 = "upd_pymon self (\<lambda>p. p\<lparr>energy := en\<rparr>) s"
      from False res r p(1) have "Challenge self nm ins rs now s =
          Some (resolve_match self opp cur w l d now pr ?s0)"
        using Challenge_adoptable[OF cur opp] by simp
      with assms(1) have out: "out = resolve_match self opp cur w l d now pr ?s0" by simp
      have alloc: "self < pymon_alloc ?s0" using assms(2) by (simp add: upd_pymon_def)
      from resolve_match_self[OF alloc, of opp cur w l d now pr] p(2,3)
      show ?thesis unfolding out by (simp add: upd_pymon_def)
    qed
  qed
qed

lemma random_escape_not_exit: "raised (random_escape self q t) \<noteq> Some (SystemExit c)"
  by (simp add: random_escape_def Let_def split: option.splits sum.splits)

lemma move_not_exit: "raised (move self d r s) \<noteq> Some (SystemExit c)"
proof (cases "door_taken self d s")
  case False
  then have "raised (move self d r s) = None"
    by (auto simp: move_def door_taken_def direction_error_def simp del: set_simps
        split: option.splits)
  then show ?thesis by simp
next
  case True
  then obtain cur new where h: "d \<in> set [''west'', ''north'', ''east'', ''south'']"
    "current_location (pymon_heap s self) = Some cur"
    "map_of (doors (loc_heap s cur)) d = Some (Some new)"
    by (rule door_takenE)
  show ?thesis
    unfolding move_def using h
    by (simp only: if_not_P not_not option.case Let_def)
       (simp add: random_escape_not_exit)
qed

lemma move_pymon_raised: "raised (move_pymon d r s) = None"
  using move_not_exit[of "current_pymon s" d r s]
  by (simp add: move_pymon_def Let_def split: option.splits exn.splits)

lemma move_pymon_energy:
  "energy (pymon_heap (post (move_pymon d r s)) (current_pymon s)) \<le>
     energy (pymon_heap s (current_pymon s))"
  "pymon_alloc (post (move_pymon d r s)) = pymon_alloc s"
  by (cases "door_taken (current_pymon s) d s";
      simp add: move_pymon_post move_taken move_not_taken)+

lemma run_energy:
  assumes "run cs s = Some s'" and "current_pymon s < pymon_alloc s"
  shows "current_pymon s' = current_pymon s \<and>
         energy (pymon_heap s' (current_pymon s)) \<le> energy (pymon_heap s (current_pymon s)) \<and>
         (list_all is_challenge cs \<and> 0 \<le> energy (pymon_heap s (current_pymon s)) \<longrightarrow>
            0 \<le> energy (pymon_heap s' (current_pymon s)))"
  using assms
proof (induction cs arbitrary: s)
  case Nil
  then show ?case by simp
next
  case (Cons c cs)
  show ?case
  proof (cases c)
    case (MoveCmd d r)
    let ?t = "post (move_pymon d r s)"
    from Cons.prems(1) MoveCmd have run: "run cs ?t = Some s'"
      by (simp add: move_pymon_raised)
    have cp: "current_pymon ?t = current_pymon s" by (rule move_pymon_current)
    have al: "current_pymon ?t < pymon_alloc ?t"
      using Cons.prems(2) by (simp add: cp move_pymon_energy)
    from Cons.IH[OF run al] move_pymon_energy(1)[of d r s] MoveCmd
    show ?thesis by (simp add: cp)
  next
    case (ChallengeCmd nm ins rs now)
    from Cons.prems(1) ChallengeCmd obtain out
      where out: "Challenge (current_pymon s) nm ins rs now s = Some out"
      by (cases "Challenge (current_pymon s) nm ins rs now s")
         (simp_all add: challenge_creature_def)
    note ce = Challenge_energy[OF out Cons.prems(2)]
    show ?thesis
    proof (cases "raised out")
      case (Some e)
      with Cons.prems(1) ChallengeCmd out have "s' = post out"
        by (simp add: challenge_creature_def)
      with ce show ?thesis by simp
    next
      case None
      with Cons.prems(1) ChallengeCmd out have run: "run cs (post out) = Some s'"
        by (simp add: challenge_creature_def)
      have al: "current_pymon (post out) < pymon_alloc (post out)"
        using ce Cons.prems(2) by simp
      from Cons.IH[OF run al] ce ChallengeCmd show ?thesis by auto
    qed
  qed
qed

section \<open>Energy over moves and challenges\<close>

text \<open>
  C2, as the code has it. Over any list of move and challenge commands that the session
  completes, started with the active Pymon an allocated object of energy at most 3, the
  active Pymon stays the same object and its energy stays at most 3. The lower bound
  holds for challenges only: when every command is a challenge and the energy starts at
  0 or more, it ends at 0 or more. Moves have no floor.
\<close>

theorem energy_bounds_over_commands:
  assumes "run cs s = Some s'"
    and "current_pymon s < pymon_alloc s"
    and "energy (pymon_heap s (current_pymon s)) \<le> 3"
  shows "current_pymon s' = current_pymon s \<and>
         energy (pymon_heap s' (current_pymon s')) \<le> 3 \<and>
         (list_all is_challenge cs \<and> 0 \<le> energy (pymon_heap s (current_pymon s)) \<longrightarrow>
            0 \<le> energy (pymon_heap s' (current_pymon s')))"
  using run_energy[OF assms(1,2)] assms(3) by auto

text \<open>
  C2 as the specification states it fails: eight moves between Forest and Cave take the
  energy of a fresh Pymon from 3 to \<open>-1\<close>.
\<close>

theorem energy_bounds_counterexample:
  "run [MoveCmd ''east'' 0, MoveCmd ''west'' 0, MoveCmd ''east'' 0, MoveCmd ''west'' 0,
        MoveCmd ''east'' 0, MoveCmd ''west'' 0, MoveCmd ''east'' 0, MoveCmd ''west'' 0]
     forest_cave \<noteq> None \<and>
   energy (pymon_heap forest_cave (current_pymon forest_cave)) = 3 \<and>
   energy (pymon_heap (the (run
       [MoveCmd ''east'' 0, MoveCmd ''west'' 0, MoveCmd ''east'' 0, MoveCmd ''west'' 0,
        MoveCmd ''east'' 0, MoveCmd ''west'' 0, MoveCmd ''east'' 0, MoveCmd ''west'' 0]
       forest_cave)) 0) = - 1"
  by code_simp

lemmas challenge_eval = Challenge_def challenge_creature_def world_defs nickname_of_def
  adoptable_of_def upd_pymon_def rounds_exit rounds_rock_paper resolve_match_def add_battle_eq
  history_def Let_def

text \<open>Two moves, and a lost challenge, in the small world.\<close>

theorem energy_bounds_over_commands_witness:
  "energy (pymon_heap (the (run [MoveCmd ''east'' 0, MoveCmd ''west'' 0] forest_cave)) 0) \<le> 3 \<and>
   0 \<le> energy (pymon_heap (the (run [ChallengeCmd ''Kitimon'' (sconst ''rock'') (sconst 4) 0]
                                 forest_cave)) 0)"
proof -
  define s1 where "s1 = the (run [MoveCmd ''east'' 0, MoveCmd ''west'' 0] forest_cave)"
  define s2 where
    "s2 = the (run [ChallengeCmd ''Kitimon'' (sconst ''rock'') (sconst 4) 0] forest_cave)"
  have "run [MoveCmd ''east'' 0, MoveCmd ''west'' 0] forest_cave \<noteq> None"
    by code_simp
  then have r1: "run [MoveCmd ''east'' 0, MoveCmd ''west'' 0] forest_cave = Some s1"
    unfolding s1_def by (rule option.collapse[symmetric])
  have "run [ChallengeCmd ''Kitimon'' (sconst ''rock'') (sconst 4) 0] forest_cave \<noteq> None"
    by (simp add: challenge_eval)
  then have r2: "run [ChallengeCmd ''Kitimon'' (sconst ''rock'') (sconst 4) 0] forest_cave = Some s2"
    unfolding s2_def by (rule option.collapse[symmetric])
  have h: "current_pymon forest_cave < pymon_alloc forest_cave"
    "energy (pymon_heap forest_cave (current_pymon forest_cave)) \<le> 3"
    by (simp_all add: world_defs)
  have h': "0 \<le> energy (pymon_heap forest_cave (current_pymon forest_cave))"
    "current_pymon forest_cave = 0"
    "list_all is_challenge [ChallengeCmd ''Kitimon'' (sconst ''rock'') (sconst 4) 0]"
    by (simp_all add: world_defs)
  from energy_bounds_over_commands[OF r1 h] h'(2)
  have a: "energy (pymon_heap s1 0) \<le> 3" by metis
  from energy_bounds_over_commands[OF r2 h] h'
  have b: "0 \<le> energy (pymon_heap s2 0)" by metis
  from a b show ?thesis unfolding s1_def s2_def by (rule conjI)
qed

section \<open>The code at three inputs where it leaves the specification\<close>

text \<open>
  C3. Kimimon, with Toromon and Marimon on its bench, loses a match against Kitimon
  by two rounds. The front pet Toromon is popped, Kimimon's inventory goes to Toromon and
  Kimimon's is emptied, Toromon is announced as the primary Pymon and Kimimon's location
  reference becomes Toromon's (Cave), while Kimimon stays in Forest's creature list. But
  \<^verbatim>\<open>Operation.current_pymon\<close> is still Kimimon: neither \<^verbatim>\<open>Challenge\<close> nor
  \<^verbatim>\<open>challenge_creature\<close> assigns it, as \<^verbatim>\<open>select_benched_pymon\<close> does.
\<close>

theorem challenge_loss_keeps_active_pymon:
  "challenge_creature ''Kitimon'' (sconst ''rock'') (sconst 4) 0 forest_cave \<noteq> None \<and>
   raised (the (challenge_creature ''Kitimon'' (sconst ''rock'') (sconst 4) 0 forest_cave)) = None \<and>
   history (battle_stats (pymon_heap (post (the (challenge_creature ''Kitimon'' (sconst ''rock'')
     (sconst 4) 0 forest_cave))) 0)) ''Kimimon'' =
     [\<lparr>timestamp = 0, opponent = ''Kitimon'', wins = 0, draws = 0, losses = 2\<rparr>] \<and>
   pets (pymon_heap forest_cave 0) = [1, 2] \<and>
   pets (pymon_heap (post (the (challenge_creature ''Kitimon'' (sconst ''rock'') (sconst 4) 0
     forest_cave))) 0) = [2] \<and>
   inventory (pymon_heap (post (the (challenge_creature ''Kitimon'' (sconst ''rock'') (sconst 4) 0
     forest_cave))) 0) = [] \<and>
   inventory (pymon_heap (post (the (challenge_creature ''Kitimon'' (sconst ''rock'') (sconst 4) 0
     forest_cave))) 1) = inventory (pymon_heap forest_cave 0) \<and>
   last (printed (the (challenge_creature ''Kitimon'' (sconst ''rock'') (sconst 4) 0 forest_cave)))
     = ''Toromon is now your primary Pymon.'' \<and>
   current_pymon forest_cave = 0 \<and>
   current_pymon (post (the (challenge_creature ''Kitimon'' (sconst ''rock'') (sconst 4) 0
     forest_cave))) = 0 \<and>
   current_location (pymon_heap (post (the (challenge_creature ''Kitimon'' (sconst ''rock'')
     (sconst 4) 0 forest_cave))) 0) = Some 1 \<and>
   creatures (loc_heap (post (the (challenge_creature ''Kitimon'' (sconst ''rock'') (sconst 4) 0
     forest_cave))) 0) = [PymonRef 0, CreatureRef 0, CreatureRef 1]"
  by (simp add: challenge_eval)

text \<open>
  C4. Kimimon at Forest, with energy 1 and one move counted, moves east to Cave, whose
  west door leads back to Forest. The energy reaches 0 and \<^verbatim>\<open>random_escape\<close> is
  called; \<^verbatim>\<open>random.choice\<close> on the view of the door values raises \<^verbatim>\<open>TypeError\<close>,
  before anything is removed or relocated: Kimimon stays in Cave, in its creature list,
  and \<^verbatim>\<open>move_pymon\<close> reports an unexpected error.
\<close>

theorem random_escape_raises:
  "energy (pymon_heap (with_energy 1 1) 0) = 1 \<and>
   door_taken 0 ''east'' (with_energy 1 1) \<and>
   map_of (doors (loc_heap (with_energy 1 1) 1)) ''west'' = Some (Some 0) \<and>
   raised (move 0 ''east'' 2 (with_energy 1 1)) = Some TypeError \<and>
   energy (pymon_heap (post (move 0 ''east'' 2 (with_energy 1 1))) 0) = 0 \<and>
   current_location (pymon_heap (post (move 0 ''east'' 2 (with_energy 1 1))) 0) = Some 1 \<and>
   creatures (loc_heap (post (move 0 ''east'' 2 (with_energy 1 1))) 1) = [PymonRef 0] \<and>
   printed (move_pymon ''east'' 2 (with_energy 1 1)) =
     [''You moved to:  Cave'', ''Your pymon energy decreased by 1. Current Energy: 0'',
      ''Unexpected error during movement: '' @ exn_str TypeError]"
  by code_simp

text \<open>
  C8. With two Pymons on the bench, the selection \<open>-1\<close> is no valid 1-based index, yet
  \<^verbatim>\<open>pets.pop(-2)\<close> succeeds: no error is reported, Toromon (the first on the bench)
  becomes the active Pymon and the state has changed. The demoted Kimimon is appended to
  its own list of pets; the list of pets of the new active Pymon is empty.
\<close>

theorem select_negative_index:
  "pets (pymon_heap forest_cave (current_pymon forest_cave)) = [1, 2] \<and>
   raised (select_benched_pymon (Some (- 1)) forest_cave) = None \<and>
   current_pymon (post (select_benched_pymon (Some (- 1)) forest_cave)) = 1 \<and>
   pets (pymon_heap (post (select_benched_pymon (Some (- 1)) forest_cave)) 0) = [2, 0] \<and>
   pets (pymon_heap (post (select_benched_pymon (Some (- 1)) forest_cave)) 1) = [] \<and>
   last (printed (select_benched_pymon (Some (- 1)) forest_cave)) =
     ''Your Primary Pymon is now: Toromon''"
  by code_simp

end
